theory Spec2Isabelle
  imports Complex_Main "HOL-Library.Sublist"
begin

section \<open>Replay analyser: the integrator (integrador.py)\<close>

text \<open>
  The integrator coordinates three collaborators whose code lives in other modules of the
  repository (the parser, the analyser and the visualiser). The model below follows
  \<^verbatim>\<open>ReplayAnalyzerIntegrator\<close> line by line. What the collaborators compute is a
  parameter of the model (the record \<open>env\<close>); what the integrator does with them (the order
  of the calls, the early returns, the values it puts into its result) is written out.

  Python strings are lists of characters; every character that occurs in the sources has a
  code point below 256 and is one \<open>char\<close>.
\<close>

subsection \<open>Paths and strings\<close>

type_synonym path = string

definition sep :: char where
  "sep = CHR ''/''"

text \<open>\<^verbatim>\<open>os.path.join(a, b)\<close> of posixpath, for two components.\<close>

definition join :: "path \<Rightarrow> path \<Rightarrow> path" where
  "join a b =
     (if b \<noteq> [] \<and> hd b = sep then b
      else if a = [] \<or> last a = sep then a @ b
      else a @ [sep] @ b)"

text \<open>\<^verbatim>\<open>os.path.basename(p)\<close> of posixpath: what follows the last separator.\<close>

definition basename :: "path \<Rightarrow> path" where
  "basename p = rev (takeWhile (\<lambda>c. c \<noteq> sep) (rev p))"

text \<open>
  \<^verbatim>\<open>s.replace(old, new)\<close> for a non-empty \<open>old\<close>: every occurrence, found from
  left to right without overlap, is replaced.
\<close>

function replace :: "string \<Rightarrow> string \<Rightarrow> string \<Rightarrow> string" where
  "replace old new [] = []"
| "replace old new (c # cs) =
     (if old \<noteq> [] \<and> prefix old (c # cs)
      then new @ replace old new (drop (length old) (c # cs))
      else c # replace old new cs)"
  by pat_completeness auto
termination
  by (relation "measure (\<lambda>(old, new, s). length s)") (auto simp: neq_Nil_conv)

subsection \<open>JSON values and the file system\<close>

text \<open>
  The values Python's \<^verbatim>\<open>json\<close> module reads and writes. A \<^verbatim>\<open>dict\<close> is
  an association list (its items in insertion order), looked up with \<open>map_of\<close>.
\<close>

datatype json =
    JNull
  | JBool bool
  | JNum rat
  | JStr string
  | JArr "json list"
  | JObj "(string \<times> json) list"

text \<open>
  What a path names: nothing, a directory, or a file. A file either holds a JSON document or
  text that \<^verbatim>\<open>json.load\<close> rejects.
\<close>

datatype content = Malformed | Doc json

datatype node = Dir | File content

type_synonym filesystem = "path \<rightharpoonup> node"

definition path_exists :: "filesystem \<Rightarrow> path \<Rightarrow> bool" where
  "path_exists fs p = (fs p \<noteq> None)"

subsection \<open>Exceptions and outcomes\<close>

datatype exn =
    AttributeError
  | JSONDecodeError
  | IsADirectoryError
  | External string

text \<open>
  A method either raises or returns a value together with the updated object.
\<close>

datatype ('r, 's) outcome = Raised exn | Returned 'r 's

subsection \<open>The calls the integrator makes\<close>

text \<open>
  Every call that leaves the integrator, with its arguments, in the order of the source.
  \<open>'df\<close> is the type of a pandas data frame.
\<close>

datatype 'df call =
    Print string
  | Makedirs path
  | Set_output_dir path
  | New_parser path
  | Parse
  | Export_to_json path
  | Get_player_positions_dataframe
  | Get_ball_positions_dataframe
  | To_csv 'df path
  | Get_metadata
  | Get_players
  | Get_events
  | Load_data json
  | Load_dataframes 'df 'df
  | Analyze
  | Get_overall_score
  | Get_key_findings
  | Get_recommendations
  | Dump_json path json
  | Create_heatmap 'df string
  | Create_ball_trajectory 'df string
  | Create_boost_usage_chart 'df json string
  | Create_speed_chart 'df json string
  | Create_distance_to_ball_chart 'df 'df json string
  | Create_team_spread_chart 'df json string
  | Create_analysis_radar_chart json string
  | Create_event_timeline json string

fun is_print :: "'df call \<Rightarrow> bool" where
  "is_print (Print s) = True"
| "is_print c = False"

text \<open>
  The environment of a run: the file system, the clock, and the behaviour of the
  collaborators. \<open>raises n c\<close> tells whether the call \<open>c\<close>, made as the \<open>n\<close>-th
  call of the run, raises. \<open>'a\<close> is the state of the analyser object.
\<close>

record ('a, 'df) env =
  fs :: filesystem
  now_stamp :: string
  raises :: "nat \<Rightarrow> 'df call \<Rightarrow> exn option"
  parse_truthy :: "path \<Rightarrow> bool"
  parsed_metadata :: "path \<Rightarrow> json"
  parsed_players :: "path \<Rightarrow> json"
  parsed_events :: "path \<Rightarrow> json"
  parsed_player_df :: "path \<Rightarrow> 'df"
  parsed_ball_df :: "path \<Rightarrow> 'df"
  load_data :: "json \<Rightarrow> 'a \<Rightarrow> 'a"
  load_dataframes :: "'df \<Rightarrow> 'df \<Rightarrow> 'a \<Rightarrow> 'a"
  analyze :: "'a \<Rightarrow> 'a"
  analysis_results :: "'a \<Rightarrow> json"
  get_overall_score :: "'a \<Rightarrow> json"
  get_key_findings :: "'a \<Rightarrow> json"
  get_recommendations :: "'a \<Rightarrow> json"

text \<open>\<^verbatim>\<open>print\<close> does not raise; any other call may.\<close>

definition raises_at ::
  "(nat \<Rightarrow> 'df call \<Rightarrow> exn option) \<Rightarrow> nat \<Rightarrow> 'df call \<Rightarrow> exn option" where
  "raises_at r n c = (if is_print c then None else r n c)"

text \<open>
  Running a block of calls: each call is appended to the trace; the first one that raises
  ends the block.
\<close>

fun run_calls ::
  "(nat \<Rightarrow> 'df call \<Rightarrow> exn option) \<Rightarrow> 'df call list \<Rightarrow> 'df call list \<Rightarrow>
     'df call list \<times> exn option" where
  "run_calls r [] tr = (tr, None)"
| "run_calls r (c # cs) tr =
     (case raises_at r (length tr) c of
        Some e \<Rightarrow> (tr @ [c], Some e)
      | None \<Rightarrow> run_calls r cs (tr @ [c]))"

subsection \<open>The integrator object\<close>

record 'a integrator =
  data_dir :: path
  uploads_dir :: path
  results_dir :: path
  visualizations_dir :: path
  parser :: "path option"
  analyzer :: 'a
  visualizer_dir :: path

text \<open>
  \<^verbatim>\<open>__init__\<close>: \<open>base\<close> is the directory two levels above the module, \<open>a0\<close>
  a freshly built analyser. The three \<^verbatim>\<open>os.makedirs\<close> calls are returned as the
  constructor's trace.
\<close>

definition init ::
  "path \<Rightarrow> 'a \<Rightarrow> path option \<Rightarrow> 'a integrator \<times> 'df call list" where
  "init base a0 data_dir_arg =
     (let dd = (case data_dir_arg of
                  None \<Rightarrow> join base ''data''
                | Some d \<Rightarrow> if d = [] then join base ''data'' else d);
          ud = join dd ''uploads'';
          rd = join dd ''results'';
          vd = join dd ''visualizations''
      in (\<lparr>data_dir = dd, uploads_dir = ud, results_dir = rd, visualizations_dir = vd,
           parser = None, analyzer = a0, visualizer_dir = vd\<rparr>,
          [Makedirs ud, Makedirs rd, Makedirs vd]))"

subsection \<open>\<^verbatim>\<open>process_replay\<close>\<close>

text \<open>The dictionary of chart paths, built the same way in both methods.\<close>

definition visualizations :: "path \<Rightarrow> (string \<times> path) list" where
  "visualizations result_dir =
     [(''heatmap'', join result_dir ''heatmap.png''),
      (''ball_trajectory'', join result_dir ''ball_trajectory.png''),
      (''boost_usage'', join result_dir ''boost_usage.png''),
      (''speed'', join result_dir ''speed.png''),
      (''distance_to_ball'', join result_dir ''distance_to_ball.png''),
      (''team_spread'', join result_dir ''team_spread.png''),
      (''analysis_radar'', join result_dir ''analysis_radar.png''),
      (''event_timeline'', join result_dir ''event_timeline.png'')]"

record results =
  res_id :: string
  res_replay_path :: path
  res_result_dir :: path
  res_metadata :: json
  res_players :: json
  res_events :: json
  res_analysis :: json
  res_overall_score :: json
  res_findings :: json
  res_recommendations :: json
  res_visualizations :: "(string \<times> path) list"

text \<open>
  Lines 75-77: a missing or empty \<^verbatim>\<open>result_id\<close> is replaced by the file name
  without \<^verbatim>\<open>.replay\<close>, an underscore and the time stamp.
\<close>

definition make_result_id :: "string \<Rightarrow> path \<Rightarrow> string option \<Rightarrow> string" where
  "make_result_id stamp replay_path result_id =
     (let generated = replace ''.replay'' [] (basename replay_path) @ ''_'' @ stamp
      in case result_id of
           None \<Rightarrow> generated
         | Some r \<Rightarrow> if r = [] then generated else r)"

text \<open>Lines 79-90: the result directory, the visualiser's directory, the parser and its run.\<close>

definition parsing_calls :: "path \<Rightarrow> path \<Rightarrow> 'df call list" where
  "parsing_calls result_dir replay_path =
     [Makedirs result_dir,
      Set_output_dir result_dir,
      Print (''Analisando replay: '' @ replay_path),
      New_parser replay_path,
      Parse]"

text \<open>Lines 109-113: the dictionary handed to the analyser.\<close>

definition replay_data_of :: "('a, 'df) env \<Rightarrow> path \<Rightarrow> json" where
  "replay_data_of env replay_path =
     JObj [(''metadata'', parsed_metadata env replay_path),
           (''players'', parsed_players env replay_path),
           (''events'', parsed_events env replay_path)]"

text \<open>Lines 114-116: the analyser after loading the data and analysing.\<close>

definition analyzed :: "('a, 'df) env \<Rightarrow> path \<Rightarrow> 'a \<Rightarrow> 'a" where
  "analyzed env replay_path a =
     analyze env
       (load_dataframes env (parsed_player_df env replay_path) (parsed_ball_df env replay_path)
          (load_data env (replay_data_of env replay_path) a))"

text \<open>Lines 126-131: the document written to \<^verbatim>\<open>analysis_results.json\<close>.\<close>

definition analysis_document :: "('a, 'df) env \<Rightarrow> 'a \<Rightarrow> json" where
  "analysis_document env a =
     JObj [(''analysis'', analysis_results env a),
           (''overall_score'', get_overall_score env a),
           (''findings'', get_key_findings env a),
           (''recommendations'', get_recommendations env a)]"

text \<open>
  Lines 94-170, the calls made once \<^verbatim>\<open>parse\<close> has returned a true value; \<open>a\<close> is
  the analyser after line 116. An argument that is itself a call
  (\<^verbatim>\<open>self.parser.get_players()\<close>) is evaluated before the call it is passed to.
\<close>

definition remaining_calls ::
  "('a, 'df) env \<Rightarrow> path \<Rightarrow> path \<Rightarrow> 'a \<Rightarrow> 'df call list" where
  "remaining_calls env result_dir replay_path a =
     (let player_df = parsed_player_df env replay_path;
          ball_df = parsed_ball_df env replay_path;
          players = parsed_players env replay_path;
          events = parsed_events env replay_path
      in [Export_to_json (join result_dir ''replay_data.json''),
          Get_player_positions_dataframe,
          Get_ball_positions_dataframe,
          To_csv player_df (join result_dir ''player_positions.csv''),
          To_csv ball_df (join result_dir ''ball_positions.csv''),
          Print (''Realizando an'' @ [CHR 0xE1] @ ''lise avan'' @ [CHR 0xE7] @ ''ada...''),
          Get_metadata,
          Get_players,
          Get_events,
          Load_data (replay_data_of env replay_path),
          Load_dataframes player_df ball_df,
          Analyze,
          Get_overall_score,
          Get_key_findings,
          Get_recommendations,
          Dump_json (join result_dir ''analysis_results.json'') (analysis_document env a),
          Print (''Gerando visualiza'' @ [CHR 0xE7, CHR 0xF5] @ ''es...''),
          Create_heatmap player_df ''heatmap.png'',
          Create_ball_trajectory ball_df ''ball_trajectory.png'',
          Get_players,
          Create_boost_usage_chart player_df players ''boost_usage.png'',
          Get_players,
          Create_speed_chart player_df players ''speed.png'',
          Get_players,
          Create_distance_to_ball_chart player_df ball_df players ''distance_to_ball.png'',
          Get_players,
          Create_team_spread_chart player_df players ''team_spread.png'',
          Create_analysis_radar_chart (analysis_results env a) ''analysis_radar.png'',
          Get_events,
          Create_event_timeline events ''event_timeline.png'',
          Get_metadata,
          Get_players,
          Get_events,
          Print (''Processamento conclu'' @ [CHR 0xED] @ ''do. Resultados salvos em: ''
                 @ result_dir)])"

text \<open>Lines 147-168: the dictionary returned on success.\<close>

definition compile_results ::
  "('a, 'df) env \<Rightarrow> string \<Rightarrow> path \<Rightarrow> path \<Rightarrow> 'a \<Rightarrow> results" where
  "compile_results env rid replay_path result_dir a =
     \<lparr>res_id = rid,
      res_replay_path = replay_path,
      res_result_dir = result_dir,
      res_metadata = parsed_metadata env replay_path,
      res_players = parsed_players env replay_path,
      res_events = parsed_events env replay_path,
      res_analysis = analysis_results env a,
      res_overall_score = get_overall_score env a,
      res_findings = get_key_findings env a,
      res_recommendations = get_recommendations env a,
      res_visualizations = visualizations result_dir\<rparr>"

text \<open>
  The method returns its value with the updated integrator, or raises; the second component
  is the trace of the calls it made. The methods of the parser and the getters of the
  analyser are taken to read their object without changing it.
\<close>

definition process_replay ::
  "('a, 'df) env \<Rightarrow> 'a integrator \<Rightarrow> path \<Rightarrow> string option \<Rightarrow>
     (results option, 'a integrator) outcome \<times> 'df call list" where
  "process_replay env self replay_path result_id =
     (if \<not> path_exists (fs env) replay_path
      then (Returned None self,
            [Print (''Erro: Arquivo '' @ replay_path @ '' n'' @ [CHR 0xE3] @ ''o encontrado.'')])
      else
        let rid = make_result_id (now_stamp env) replay_path result_id;
            result_dir = join (results_dir self) rid
        in case run_calls (raises env) (parsing_calls result_dir replay_path) [] of
             (tr, Some e) \<Rightarrow> (Raised e, tr)
           | (tr, None) \<Rightarrow>
               let self1 = self\<lparr>visualizer_dir := result_dir, parser := Some replay_path\<rparr>
               in if \<not> parse_truthy env replay_path
                  then (Returned None self1, tr @ [Print ''Falha ao analisar o replay.''])
                  else
                    let a = analyzed env replay_path (analyzer self1);
                        self2 = self1\<lparr>analyzer := a\<rparr>
                    in case run_calls (raises env)
                              (remaining_calls env result_dir replay_path a) tr of
                         (tr', Some e) \<Rightarrow> (Raised e, tr')
                       | (tr', None) \<Rightarrow>
                           (Returned (Some (compile_results env rid replay_path result_dir a))
                              self2, tr'))"

text \<open>The steps of the three stages, by the object they are sent to.\<close>

fun decode_call :: "'df call \<Rightarrow> bool" where
  "decode_call (New_parser p) = True"
| "decode_call Parse = True"
| "decode_call c = False"

fun analysis_call :: "'df call \<Rightarrow> bool" where
  "analysis_call (Load_data d) = True"
| "analysis_call (Load_dataframes p b) = True"
| "analysis_call Analyze = True"
| "analysis_call Get_overall_score = True"
| "analysis_call Get_key_findings = True"
| "analysis_call Get_recommendations = True"
| "analysis_call c = False"

fun export_call :: "'df call \<Rightarrow> bool" where
  "export_call (Export_to_json p) = True"
| "export_call (To_csv d p) = True"
| "export_call (Dump_json p j) = True"
| "export_call c = False"

fun visualization_call :: "'df call \<Rightarrow> bool" where
  "visualization_call (Create_heatmap d s) = True"
| "visualization_call (Create_ball_trajectory d s) = True"
| "visualization_call (Create_boost_usage_chart d p s) = True"
| "visualization_call (Create_speed_chart d p s) = True"
| "visualization_call (Create_distance_to_ball_chart d b p s) = True"
| "visualization_call (Create_team_spread_chart d p s) = True"
| "visualization_call (Create_analysis_radar_chart a s) = True"
| "visualization_call (Create_event_timeline e s) = True"
| "visualization_call c = False"

text \<open>
  The calls of a run that goes through, in their order: the parsing block followed by the
  block after a successful parse.
\<close>

definition pipeline_calls ::
  "('a, 'df) env \<Rightarrow> 'a integrator \<Rightarrow> path \<Rightarrow> string option \<Rightarrow> 'df call list" where
  "pipeline_calls env self replay_path result_id =
     (let result_dir =
            join (results_dir self) (make_result_id (now_stamp env) replay_path result_id)
      in parsing_calls result_dir replay_path @
         remaining_calls env result_dir replay_path (analyzed env replay_path (analyzer self)))"

text \<open>
  Decoding fails in a run when the file exists, the run reaches \<^verbatim>\<open>parse()\<close> (no call
  up to and including it raises) and \<^verbatim>\<open>parse()\<close> returns a false value.
\<close>

definition decoding_fails ::
  "('a, 'df) env \<Rightarrow> 'a integrator \<Rightarrow> path \<Rightarrow> string option \<Rightarrow> bool" where
  "decoding_fails env self replay_path result_id =
     (let result_dir =
            join (results_dir self) (make_result_id (now_stamp env) replay_path result_id)
      in path_exists (fs env) replay_path \<and>
         snd (run_calls (raises env) (parsing_calls result_dir replay_path) []) = None \<and>
         \<not> parse_truthy env replay_path)"

text \<open>
  The stage a call belongs to, numbered in the order decode (0), normalisation and analysis (1),
  export and visualisation (2). Prints, directory set-up and the parser's getters belong to no
  stage.
\<close>

definition stage_of :: "'df call \<Rightarrow> nat option" where
  "stage_of c =
     (if decode_call c then Some 0
      else if c = Get_player_positions_dataframe \<or> c = Get_ball_positions_dataframe
              \<or> analysis_call c then Some 1
      else if export_call c \<or> visualization_call c then Some 2
      else None)"

definition stages_in_order :: "'df call list \<Rightarrow> bool" where
  "stages_in_order tr = sorted (List.map_filter stage_of tr)"

text \<open>
  The phases of lines 86-144, by the statement a call is made in: the parser is built and run
  (0, lines 88-90); the decoded data are exported, as \<^verbatim>\<open>replay_data.json\<close> and, once
  the data frames are taken, as the two CSV files (1, lines 96-104); the analyser is loaded,
  run and read (2, lines 114-122); its results are exported (3, lines 125-131); the charts
  are drawn (4, lines 137-144). Prints, the directory set-up and the getters of the parser
  belong to no phase.
\<close>

fun phase_of :: "'df call \<Rightarrow> nat option" where
  "phase_of (New_parser p) = Some 0"
| "phase_of Parse = Some 0"
| "phase_of (Export_to_json p) = Some 1"
| "phase_of Get_player_positions_dataframe = Some 1"
| "phase_of Get_ball_positions_dataframe = Some 1"
| "phase_of (To_csv d p) = Some 1"
| "phase_of (Load_data j) = Some 2"
| "phase_of (Load_dataframes p b) = Some 2"
| "phase_of Analyze = Some 2"
| "phase_of Get_overall_score = Some 2"
| "phase_of Get_key_findings = Some 2"
| "phase_of Get_recommendations = Some 2"
| "phase_of (Dump_json p j) = Some 3"
| "phase_of (Create_heatmap d s) = Some 4"
| "phase_of (Create_ball_trajectory d s) = Some 4"
| "phase_of (Create_boost_usage_chart d p s) = Some 4"
| "phase_of (Create_speed_chart d p s) = Some 4"
| "phase_of (Create_distance_to_ball_chart d b p s) = Some 4"
| "phase_of (Create_team_spread_chart d p s) = Some 4"
| "phase_of (Create_analysis_radar_chart a s) = Some 4"
| "phase_of (Create_event_timeline e s) = Some 4"
| "phase_of c = None"

definition phases :: "'df call list \<Rightarrow> nat list" where
  "phases tr = List.map_filter phase_of tr"

text \<open>The phases of a run that goes through, call by call.\<close>

definition pipeline_phases :: "nat list" where
  "pipeline_phases = [0, 0, 1, 1, 1, 1, 1, 2, 2, 2, 2, 2, 2, 3, 4, 4, 4, 4, 4, 4, 4, 4]"

text \<open>The function or method a call goes to, without its arguments.\<close>

fun method_of :: "'df call \<Rightarrow> string" where
  "method_of (Print s) = ''print''"
| "method_of (Makedirs p) = ''os.makedirs''"
| "method_of (Set_output_dir p) = ''visualizer.set_output_dir''"
| "method_of (New_parser p) = ''RocketLeagueParser''"
| "method_of Parse = ''parser.parse''"
| "method_of (Export_to_json p) = ''parser.export_to_json''"
| "method_of Get_player_positions_dataframe = ''parser.get_player_positions_dataframe''"
| "method_of Get_ball_positions_dataframe = ''parser.get_ball_positions_dataframe''"
| "method_of (To_csv d p) = ''to_csv''"
| "method_of Get_metadata = ''parser.get_metadata''"
| "method_of Get_players = ''parser.get_players''"
| "method_of Get_events = ''parser.get_events''"
| "method_of (Load_data j) = ''analyzer.load_data''"
| "method_of (Load_dataframes p b) = ''analyzer.load_dataframes''"
| "method_of Analyze = ''analyzer.analyze''"
| "method_of Get_overall_score = ''analyzer.get_overall_score''"
| "method_of Get_key_findings = ''analyzer.get_key_findings''"
| "method_of Get_recommendations = ''analyzer.get_recommendations''"
| "method_of (Dump_json p j) = ''json.dump''"
| "method_of (Create_heatmap d s) = ''visualizer.create_heatmap''"
| "method_of (Create_ball_trajectory d s) = ''visualizer.create_ball_trajectory''"
| "method_of (Create_boost_usage_chart d p s) = ''visualizer.create_boost_usage_chart''"
| "method_of (Create_speed_chart d p s) = ''visualizer.create_speed_chart''"
| "method_of (Create_distance_to_ball_chart d b p s) = ''visualizer.create_distance_to_ball_chart''"
| "method_of (Create_team_spread_chart d p s) = ''visualizer.create_team_spread_chart''"
| "method_of (Create_analysis_radar_chart a s) = ''visualizer.create_analysis_radar_chart''"
| "method_of (Create_event_timeline e s) = ''visualizer.create_event_timeline''"

text \<open>
  The calls of lines 81-153 that leave the process, in the order of the source (an argument
  that is a call comes before the call it is passed to).
\<close>

definition pipeline_methods :: "string list" where
  "pipeline_methods =
     [''os.makedirs'',
      ''visualizer.set_output_dir'',
      ''RocketLeagueParser'',
      ''parser.parse'',
      ''parser.export_to_json'',
      ''parser.get_player_positions_dataframe'',
      ''parser.get_ball_positions_dataframe'',
      ''to_csv'',
      ''to_csv'',
      ''parser.get_metadata'',
      ''parser.get_players'',
      ''parser.get_events'',
      ''analyzer.load_data'',
      ''analyzer.load_dataframes'',
      ''analyzer.analyze'',
      ''analyzer.get_overall_score'',
      ''analyzer.get_key_findings'',
      ''analyzer.get_recommendations'',
      ''json.dump'',
      ''visualizer.create_heatmap'',
      ''visualizer.create_ball_trajectory'',
      ''parser.get_players'',
      ''visualizer.create_boost_usage_chart'',
      ''parser.get_players'',
      ''visualizer.create_speed_chart'',
      ''parser.get_players'',
      ''visualizer.create_distance_to_ball_chart'',
      ''parser.get_players'',
      ''visualizer.create_team_spread_chart'',
      ''visualizer.create_analysis_radar_chart'',
      ''parser.get_events'',
      ''visualizer.create_event_timeline'',
      ''parser.get_metadata'',
      ''parser.get_players'',
      ''parser.get_events'']"

subsection \<open>\<^verbatim>\<open>get_result_summary\<close>\<close>

record summary =
  sum_id :: string
  sum_metadata :: json
  sum_players :: json
  sum_events :: json
  sum_overall_score :: json
  sum_findings :: json
  sum_recommendations :: json
  sum_visualizations :: "(string \<times> path) list"

text \<open>
  \<^verbatim>\<open>with open(p, 'r') as f: json.load(f)\<close> on a path that exists: a directory cannot be
  opened, and a file must hold a JSON document.
\<close>

fun load_json :: "node \<Rightarrow> exn + json" where
  "load_json Dir = Inl IsADirectoryError"
| "load_json (File Malformed) = Inl JSONDecodeError"
| "load_json (File (Doc j)) = Inr j"

text \<open>\<^verbatim>\<open>d.get(key, default)\<close>: only a \<^verbatim>\<open>dict\<close> has the method.\<close>

fun py_get :: "json \<Rightarrow> string \<Rightarrow> json \<Rightarrow> exn + json" where
  "py_get (JObj kvs) key dflt = Inr (case map_of kvs key of None \<Rightarrow> dflt | Some v \<Rightarrow> v)"
| "py_get j key dflt = Inl AttributeError"

text \<open>
  Lines 223-241: the entries of the summary are evaluated in the order they are written;
  the first \<^verbatim>\<open>.get\<close> that raises ends the evaluation.
\<close>

definition compile_summary :: "string \<Rightarrow> path \<Rightarrow> json \<Rightarrow> json \<Rightarrow> exn + summary" where
  "compile_summary result_id result_dir analysis_data replay_data =
     (case py_get replay_data ''metadata'' (JObj []) of Inl e \<Rightarrow> Inl e | Inr m \<Rightarrow>
      case py_get replay_data ''players'' (JArr []) of Inl e \<Rightarrow> Inl e | Inr p \<Rightarrow>
      case py_get replay_data ''events'' (JArr []) of Inl e \<Rightarrow> Inl e | Inr ev \<Rightarrow>
      case py_get analysis_data ''overall_score'' (JObj []) of Inl e \<Rightarrow> Inl e | Inr s \<Rightarrow>
      case py_get analysis_data ''findings'' (JArr []) of Inl e \<Rightarrow> Inl e | Inr f \<Rightarrow>
      case py_get analysis_data ''recommendations'' (JObj []) of Inl e \<Rightarrow> Inl e | Inr r \<Rightarrow>
        Inr \<lparr>sum_id = result_id, sum_metadata = m, sum_players = p, sum_events = ev,
             sum_overall_score = s, sum_findings = f, sum_recommendations = r,
             sum_visualizations = visualizations result_dir\<rparr>)"

text \<open>
  The method leaves the integrator as it is. It returns \<open>Inl e\<close> when it raises \<open>e\<close>,
  \<open>Inr None\<close> for \<^verbatim>\<open>None\<close>, \<open>Inr (Some s)\<close> for a summary; the second component is
  what it prints.
\<close>

definition get_result_summary ::
  "filesystem \<Rightarrow> 'a integrator \<Rightarrow> string \<Rightarrow> (exn + summary option) \<times> string list" where
  "get_result_summary files self result_id =
     (let result_dir = join (results_dir self) result_id;
          analysis_path = join result_dir ''analysis_results.json'';
          replay_data_path = join result_dir ''replay_data.json''
      in if \<not> path_exists files result_dir
         then (Inr None,
               [''Erro: Resultados com ID '' @ result_id @ '' n'' @ [CHR 0xE3]
                @ ''o encontrados.''])
         else case files analysis_path of
           None \<Rightarrow>
             (Inr None,
              [''Erro: Arquivo de an'' @ [CHR 0xE1] @ ''lise n'' @ [CHR 0xE3]
               @ ''o encontrado em '' @ result_dir @ ''.''])
         | Some analysis_node \<Rightarrow>
             (case load_json analysis_node of
                Inl e \<Rightarrow> (Inl e, [])
              | Inr analysis_data \<Rightarrow>
                  (case files replay_data_path of
                     None \<Rightarrow>
                       (Inr None,
                        [''Erro: Arquivo de dados do replay n'' @ [CHR 0xE3]
                         @ ''o encontrado em '' @ result_dir @ ''.''])
                   | Some replay_node \<Rightarrow>
                       (case load_json replay_node of
                          Inl e \<Rightarrow> (Inl e, [])
                        | Inr replay_data \<Rightarrow>
                            (case compile_summary result_id result_dir analysis_data
                                    replay_data of
                               Inl e \<Rightarrow> (Inl e, [])
                             | Inr s \<Rightarrow> (Inr (Some s), []))))))"

text \<open>A path that names nothing, or a file holding a JSON object.\<close>

fun object_or_missing :: "node option \<Rightarrow> bool" where
  "object_or_missing None = True"
| "object_or_missing (Some (File (Doc (JObj kvs)))) = True"
| "object_or_missing n = False"

text \<open>
  What the summary takes from a loaded object: the value under the key, or the default.
\<close>

definition lookup_default :: "node option \<Rightarrow> string \<Rightarrow> json \<Rightarrow> json" where
  "lookup_default n key dflt =
     (case n of
        Some (File (Doc (JObj kvs))) \<Rightarrow> (case map_of kvs key of None \<Rightarrow> dflt | Some v \<Rightarrow> v)
      | _ \<Rightarrow> dflt)"

subsection \<open>A concrete environment\<close>

text \<open>
  One replay file on disk, collaborators that never raise, and an analyser whose state is a
  counter; used to evaluate the definitions above.
\<close>

definition demo_env :: "(nat, nat) env" where
  "demo_env =
     \<lparr>fs = [''match.replay'' \<mapsto> File Malformed],
      now_stamp = ''20240101120000'',
      raises = (\<lambda>n c. None),
      parse_truthy = (\<lambda>p. True),
      parsed_metadata = (\<lambda>p. JObj [(''map_name'', JStr ''DFH Stadium'')]),
      parsed_players = (\<lambda>p. JArr [JStr ''p1'', JStr ''p2'']),
      parsed_events = (\<lambda>p. JArr []),
      parsed_player_df = (\<lambda>p. 1),
      parsed_ball_df = (\<lambda>p. 2),
      load_data = (\<lambda>j a. a + 1),
      load_dataframes = (\<lambda>p b a. a + 10),
      analyze = (\<lambda>a. a + 100),
      analysis_results = (\<lambda>a. JObj []),
      get_overall_score = (\<lambda>a. JObj [(''overall_score'', JNum (of_nat a))]),
      get_key_findings = (\<lambda>a. JArr []),
      get_recommendations = (\<lambda>a. JObj [])\<rparr>"

definition failing_env :: "(nat, nat) env" where
  "failing_env = demo_env\<lparr>parse_truthy := (\<lambda>p. False)\<rparr>"

definition demo_self :: "nat integrator" where
  "demo_self =
     \<lparr>data_dir = ''/app/data'', uploads_dir = ''/app/data/uploads'',
      results_dir = ''/app/data/results'', visualizations_dir = ''/app/data/visualizations'',
      parser = None, analyzer = 0, visualizer_dir = ''/app/data/visualizations''\<rparr>"

text \<open>
  Four stored results: a complete one (\<open>r1\<close>), one whose analysis file was cut short
  (\<open>r2\<close>), one whose analysis file was cut short and whose replay data are missing
  (\<open>r3\<close>), and one with an analysis file but no replay data (\<open>r5\<close>).
\<close>

definition demo_files :: filesystem where
  "demo_files =
     [''/app/data/results'' \<mapsto> Dir,
      ''/app/data/results/r1'' \<mapsto> Dir,
      ''/app/data/results/r1/analysis_results.json'' \<mapsto>
         File (Doc (JObj [(''overall_score'', JObj [(''overall_score'', JNum 72)]),
                          (''findings'', JArr [JStr ''good rotation''])])),
      ''/app/data/results/r1/replay_data.json'' \<mapsto>
         File (Doc (JObj [(''metadata'', JObj [(''map_name'', JStr ''DFH Stadium'')]),
                          (''players'', JArr [JStr ''p1'', JStr ''p2''])])),
      ''/app/data/results/r2'' \<mapsto> Dir,
      ''/app/data/results/r2/analysis_results.json'' \<mapsto> File Malformed,
      ''/app/data/results/r2/replay_data.json'' \<mapsto> File (Doc (JObj [])),
      ''/app/data/results/r3'' \<mapsto> Dir,
      ''/app/data/results/r3/analysis_results.json'' \<mapsto> File Malformed,
      ''/app/data/results/r5'' \<mapsto> Dir,
      ''/app/data/results/r5/analysis_results.json'' \<mapsto> File (Doc (JObj []))]"

text \<open>The calls of a trace that leave the process (everything but the prints).\<close>

definition external_calls :: "'df call list \<Rightarrow> 'df call list" where
  "external_calls tr = filter (\<lambda>c. \<not> is_print c) tr"

text \<open>No call of the trace raised, each taken at its position.\<close>

definition quiet :: "(nat \<Rightarrow> 'df call \<Rightarrow> exn option) \<Rightarrow> 'df call list \<Rightarrow> bool" where
  "quiet r tr = list_all (\<lambda>(i, c). raises_at r i c = None) (enumerate 0 tr)"

text \<open>An analyser that fails in \<^verbatim>\<open>analyze()\<close>.\<close>

definition analyze_raises_env :: "(nat, nat) env" where
  "analyze_raises_env =
     demo_env\<lparr>raises := (\<lambda>n c. if c = Analyze then Some (External ''ValueError'') else None)\<rparr>"

section \<open>The set-up script (setup.py) and the wrapper scripts\<close>

text \<open>
  \<^verbatim>\<open>create_wrapper_scripts\<close> writes three Python scripts into the working directory.
  The texts below are the characters handed to \<^verbatim>\<open>f.write\<close>, and the characters
  of the three scripts kept in the repository, line by line; \<open>unlines\<close> ends every
  line with a newline character.
\<close>

definition unlines :: "string list \<Rightarrow> string" where
  "unlines ls = concat (map (\<lambda>l. l @ [CHR 0x0A]) ls)"

text \<open>The text written to \<^verbatim>\<open>analisar_replay.py\<close> (setup.py, lines 137-160).\<close>

definition replay_wrapper :: string where
  \<open>replay_wrapper = unlines
     [''#!/usr/bin/env python3'',
      ''import os'',
      ''import sys'',
      ''import argparse'',
      [],
      ''def main():'',
      ''    parser = argparse.ArgumentParser(description='Analisador de Replays')'',
      ''    parser.add_argument('--arquivo', required=True, help='Caminho para o arquivo de replay')'',
      ''    parser.add_argument('--jogo', default='rocket_league', choices=['rocket_league', 'rainbow_six'], '',
      ''                        help='Tipo de jogo (rocket_league ou rainbow_six)')'',
      ''    parser.add_argument('--saida', default='data/results', help='Diret'' @ [CHR 0xF3] @ ''rio para salvar resultados')'',
      ''    args = parser.parse_args()'',
      ''    '',
      ''    # Ativar ambiente virtual'',
      ''    if sys.platform == 'win32':'',
      ''        activate_script = os.path.join('venv', 'Scripts', 'activate')'',
      ''        os.system(f'call {activate_script} && python integrador.py --replay {args.arquivo} --game {args.jogo} --output {args.saida}')'',
      ''    else:'',
      ''        activate_script = os.path.join('venv', 'bin', 'activate')'',
      ''        os.system(f'source {activate_script} && python integrador.py --replay {args.arquivo} --game {args.jogo} --output {args.saida}')'',
      [],
      ''if __name__ == '__main__':'',
      ''    main()'']\<close>

text \<open>The text written to \<^verbatim>\<open>analisar_video.py\<close> (setup.py, lines 164-187).\<close>

definition video_wrapper :: string where
  \<open>video_wrapper = unlines
     [''#!/usr/bin/env python3'',
      ''import os'',
      ''import sys'',
      ''import argparse'',
      [],
      ''def main():'',
      ''    parser = argparse.ArgumentParser(description='Analisador de V'' @ [CHR 0xED] @ ''deos')'',
      ''    parser.add_argument('--arquivo', required=True, help='Caminho para o arquivo de v'' @ [CHR 0xED] @ ''deo')'',
      ''    parser.add_argument('--jogo', default='rocket_league', choices=['rocket_league', 'rainbow_six'], '',
      ''                        help='Tipo de jogo (rocket_league ou rainbow_six)')'',
      ''    parser.add_argument('--saida', default='data/results', help='Diret'' @ [CHR 0xF3] @ ''rio para salvar resultados')'',
      ''    args = parser.parse_args()'',
      ''    '',
      ''    # Ativar ambiente virtual'',
      ''    if sys.platform == 'win32':'',
      ''        activate_script = os.path.join('venv', 'Scripts', 'activate')'',
      ''        os.system(f'call {activate_script} && python video_analysis/gameplay_video_processor.py --video {args.arquivo} --game {args.jogo} --output {args.saida}')'',
      ''    else:'',
      ''        activate_script = os.path.join('venv', 'bin', 'activate')'',
      ''        os.system(f'source {activate_script} && python video_analysis/gameplay_video_processor.py --video {args.arquivo} --game {args.jogo} --output {args.saida}')'',
      [],
      ''if __name__ == '__main__':'',
      ''    main()'']\<close>

text \<open>The text written to \<^verbatim>\<open>iniciar_interface.py\<close> (setup.py, lines 191-206).\<close>

definition interface_wrapper :: string where
  \<open>interface_wrapper = unlines
     [''#!/usr/bin/env python3'',
      ''import os'',
      ''import sys'',
      [],
      ''def main():'',
      ''    # Ativar ambiente virtual'',
      ''    if sys.platform == 'win32':'',
      ''        activate_script = os.path.join('venv', 'Scripts', 'activate')'',
      ''        os.system(f'call {activate_script} && python interface/app.py')'',
      ''    else:'',
      ''        activate_script = os.path.join('venv', 'bin', 'activate')'',
      ''        os.system(f'source {activate_script} && python interface/app.py')'',
      [],
      ''if __name__ == '__main__':'',
      ''    main()'']\<close>

text \<open>The file \<^verbatim>\<open>analisar_replay.py\<close> of the repository.\<close>

definition analisar_replay_py :: string where
  \<open>analisar_replay_py = unlines
     [''#!/usr/bin/env python3'',
      ''import os'',
      ''import sys'',
      ''import argparse'',
      [],
      ''def main():'',
      ''    parser = argparse.ArgumentParser(description='Analisador de Replays')'',
      ''    parser.add_argument('--arquivo', required=True, help='Caminho para o arquivo de replay')'',
      ''    parser.add_argument('--jogo', default='rocket_league', choices=['rocket_league', 'rainbow_six'], '',
      ''                        help='Tipo de jogo (rocket_league ou rainbow_six)')'',
      ''    parser.add_argument('--saida', default='data/results', help='Diret'' @ [CHR 0xF3] @ ''rio para salvar resultados')'',
      ''    args = parser.parse_args()'',
      ''    '',
      ''    # Ativar ambiente virtual'',
      ''    if sys.platform == 'win32':'',
      ''        activate_script = os.path.join('venv', 'Scripts', 'activate')'',
      ''        os.system(f'call {activate_script} && python integrador.py --replay {args.arquivo} --game {args.jogo} --output {args.saida}')'',
      ''    else:'',
      ''        activate_script = os.path.join('venv', 'bin', 'activate')'',
      ''        os.system(f'source {activate_script} && python integrador.py --replay {args.arquivo} --game {args.jogo} --output {args.saida}')'',
      [],
      ''if __name__ == '__main__':'',
      ''    main()'',
      []]\<close>

text \<open>The file \<^verbatim>\<open>analisar_video.py\<close> of the repository.\<close>

definition analisar_video_py :: string where
  \<open>analisar_video_py = unlines
     [''#!/usr/bin/env python3'',
      ''# -*- coding: utf-8 -*-'',
      ''import os'',
      ''import sys'',
      ''import argparse'',
      [],
      ''def main():'',
      ''    parser = argparse.ArgumentParser(description='Analisador de V'' @ [CHR 0xED] @ ''deos')'',
      ''    parser.add_argument('--arquivo', required=True, help='Caminho para o arquivo de v'' @ [CHR 0xED] @ ''deo')'',
      ''    parser.add_argument('--jogo', default='rocket_league', choices=['rocket_league', 'rainbow_six'], '',
      ''                        help='Tipo de jogo (rocket_league ou rainbow_six)')'',
      ''    parser.add_argument('--saida', default='data/results', help='Diret'' @ [CHR 0xF3] @ ''rio para salvar resultados')'',
      ''    args = parser.parse_args()'',
      ''    '',
      ''    print(f"Iniciando an'' @ [CHR 0xE1] @ ''lise do v'' @ [CHR 0xED] @ ''deo: {args.arquivo}")'',
      ''    print(f"Tipo de jogo: {args.jogo}")'',
      ''    print(f"Diret'' @ [CHR 0xF3] @ ''rio de sa'' @ [CHR 0xED] @ ''da dos resultados: {args.saida}")'',
      [],
      ''    # Identifica o execut'' @ [CHR 0xE1] @ ''vel do Python no ambiente virtual'',
      ''    if sys.platform == 'win32':'',
      ''        python_exec = os.path.join('venv', 'Scripts', 'python.exe')'',
      ''    else:'',
      ''        python_exec = os.path.join('venv', 'bin', 'python')'',
      [],
      ''    if not os.path.isfile(python_exec):'',
      ''        print(f"Erro: N'' @ [CHR 0xE3] @ ''o foi encontrado o Python do ambiente virtual em: {python_exec}")'',
      ''        print("Certifique-se de que o ambiente virtual foi criado (venv) e instalado corretamente.")'',
      ''        sys.exit(1)'',
      [],
      ''    cmd = f'"{python_exec}" video_analysis/gameplay_video_processor.py --video "{args.arquivo}" --game "{args.jogo}" --output "{args.saida}"'' @ [CHR 0x27],
      ''    print(f"Executando comando: {cmd}")'',
      ''    exit_code = os.system(cmd)'',
      ''    '',
      ''    if exit_code == 0:'',
      ''        print("Processamento conclu'' @ [CHR 0xED] @ ''do com sucesso!")'',
      ''    else:'',
      ''        print(f"Ocorreu um erro ao processar o v'' @ [CHR 0xED] @ ''deo. C'' @ [CHR 0xF3] @ ''digo de sa'' @ [CHR 0xED] @ ''da: {exit_code}")'',
      [],
      ''if __name__ == '__main__':'',
      ''    main()'']\<close>

text \<open>The file \<^verbatim>\<open>iniciar_interface.py\<close> of the repository.\<close>

definition iniciar_interface_py :: string where
  \<open>iniciar_interface_py = unlines
     [''#!/usr/bin/env python3'',
      ''import os'',
      ''import sys'',
      [],
      ''def main():'',
      ''    # Ativar ambiente virtual'',
      ''    if sys.platform == 'win32':'',
      ''        activate_script = os.path.join('venv', 'Scripts', 'activate')'',
      ''        os.system(f'call {activate_script} && python interface/app.py')'',
      ''    else:'',
      ''        activate_script = os.path.join('venv', 'bin', 'activate')'',
      ''        os.system(f'source {activate_script} && python interface/app.py')'',
      [],
      ''if __name__ == '__main__':'',
      ''    main()'',
      []]\<close>

text \<open>What the set-up script does to the outside world.\<close>

datatype effect =
    Print_line string
  | Write_file path string
  | Chmod path nat

text \<open>\<^verbatim>\<open>print_header(message)\<close>: three printed lines.\<close>

definition print_header :: "string \<Rightarrow> effect list" where
  "print_header message =
     [Print_line ([CHR 0x0A] @ replicate 60 (CHR ''='')),
      Print_line ('' '' @ message),
      Print_line (replicate 60 (CHR ''=''))]"

text \<open>
  \<^verbatim>\<open>create_wrapper_scripts()\<close>; \<open>system\<close> is what \<^verbatim>\<open>platform.system()\<close>
  returns. The mode \<^verbatim>\<open>0o755\<close> is 493.
\<close>

definition create_wrapper_scripts :: "string \<Rightarrow> effect list \<times> bool" where
  "create_wrapper_scripts system =
     (print_header (''Criando scripts de execu'' @ [CHR 0xE7, CHR 0xE3] @ ''o'') @
      [Write_file ''analisar_replay.py'' replay_wrapper,
       Write_file ''analisar_video.py'' video_wrapper,
       Write_file ''iniciar_interface.py'' interface_wrapper] @
      (if system \<noteq> ''Windows''
       then [Chmod ''analisar_replay.py'' 493,
             Chmod ''analisar_video.py'' 493,
             Chmod ''iniciar_interface.py'' 493]
       else []) @
      [Print_line (''[OK] Scripts de execu'' @ [CHR 0xE7, CHR 0xE3] @ ''o criados.'')],
      True)"

text \<open>The text a list of effects leaves in a file: that of the last write to it.\<close>

fun written :: "effect list \<Rightarrow> path \<Rightarrow> string option" where
  "written [] p = None"
| "written (Write_file q s # es) p =
     (case written es p of Some t \<Rightarrow> Some t | None \<Rightarrow> if q = p then Some s else None)"
| "written (e # es) p = written es p"

text \<open>The scripts kept in the repository, by name.\<close>

definition repository_file :: "path \<Rightarrow> string option" where
  "repository_file p =
     (if p = ''analisar_replay.py'' then Some analisar_replay_py
      else if p = ''analisar_video.py'' then Some analisar_video_py
      else if p = ''iniciar_interface.py'' then Some iniciar_interface_py
      else None)"

section \<open>The decoder and the normaliser, from the specification\<close>

text \<open>
  The integrator hands the replay file to \<^verbatim>\<open>parser.rocket_league_parser\<close> and the
  decoded data to \<^verbatim>\<open>modelo.rocket_league_analyzer\<close>. Neither module is among the
  sources at hand, so the stages they implement are modelled from the specification
  (sections 3, 4.1 and 4.2). Time stamps and coordinates are rational numbers.
\<close>

subsection \<open>The data model (section 3)\<close>

type_synonym vec3 = "rat \<times> rat \<times> rat"

text \<open>
  Modelled from the spec: FrameSample, a time-stamped snapshot of one entity's physical state
  (the parser module that builds it is missing).
\<close>

record frame_sample =
  timestamp :: rat
  position :: vec3
  velocity :: vec3
  orientation :: vec3
  scalar :: rat

text \<open>
  Modelled from the spec: the entities, one per player and one for the ball (the parser module
  is missing).
\<close>

datatype entity = Ball | Player nat

text \<open>Modelled from the spec: PlayerRecord (the parser module is missing).\<close>

record player_record =
  player_id :: nat
  display_name :: string
  team :: nat
  role :: string

text \<open>Modelled from the spec: ReplayMetadata (the parser module is missing).\<close>

record replay_metadata =
  map_name :: string
  match_type :: string
  duration :: rat
  team_composition :: "nat list"
  format_version :: nat

text \<open>
  Modelled from the spec: GameEvent, a time stamp, a type tag and a payload with the actor
  and the target (the parser module is missing).
\<close>

record game_event =
  event_time :: rat
  event_type :: string
  actor :: nat
  target :: "nat option"

text \<open>
  Modelled from the spec: a record of the frame section, tagged with the entity it belongs to
  (the parser module is missing).
\<close>

record frame_record =
  tag :: entity
  sample :: frame_sample

subsection \<open>The binary replay decoder (section 4.1)\<close>

text \<open>Modelled from the spec: the fatal errors of the decoder (the parser module is missing).\<close>

datatype decode_error = UnsupportedFormat | Truncated | DuplicatePlayer | ChecksumMismatch

text \<open>
  Modelled from the spec: what is fixed per game title, namely the magic number, the range of
  format versions that are supported and the layout of the metadata block (the parser module
  is missing).
\<close>

record schema =
  magic :: nat
  min_version :: nat
  max_version :: nat
  parse_metadata :: "nat list \<Rightarrow> replay_metadata"

text \<open>
  Modelled from the spec: the capture as the parts of its layout (section 6), namely the magic
  number and version of the header, the length field of the metadata block and the bytes
  that follow it, the roster, the records of the frame stream and those of the event stream
  (the parser module is missing). The byte layout inside a record is specific to the game
  title and is not modelled; the format carries no checksum.
\<close>

record raw_replay =
  raw_magic :: nat
  raw_version :: nat
  raw_metadata_length :: nat
  raw_buffer :: "nat list"
  raw_roster :: "player_record list"
  raw_frames :: "frame_record list"
  raw_events :: "game_event list"

text \<open>Modelled from the spec: DecodedReplay with its diagnostics (the parser module is missing).\<close>

record decoded_replay =
  dec_metadata :: replay_metadata
  dec_roster :: "player_record list"
  dec_frames :: "frame_record list"
  dec_events :: "game_event list"
  dropped_frames :: nat
  dropped_events :: nat

text \<open>
  Modelled from the spec: an entity tag is known when it is the ball or a player of the roster
  (the parser module is missing).
\<close>

fun known_entity :: "player_record list \<Rightarrow> entity \<Rightarrow> bool" where
  "known_entity roster Ball = True"
| "known_entity roster (Player p) = (p \<in> set (map player_id roster))"

text \<open>
  Modelled from the spec: the loop over the frame section (the parser module is missing). A
  record with an unknown entity tag is skipped and the warning counter goes up by one; the
  loop goes on.
\<close>

fun decode_frames ::
  "player_record list \<Rightarrow> frame_record list \<Rightarrow> frame_record list \<times> nat \<Rightarrow>
     frame_record list \<times> nat" where
  "decode_frames roster [] (kept, dropped) = (kept, dropped)"
| "decode_frames roster (r # rs) (kept, dropped) =
     (if known_entity roster (tag r)
      then decode_frames roster rs (kept @ [r], dropped)
      else decode_frames roster rs (kept, Suc dropped))"

text \<open>
  Modelled from the spec: the loop over the event section (the parser module is missing). An
  event whose actor is not in the roster is dropped and counted.
\<close>

fun decode_events ::
  "player_record list \<Rightarrow> game_event list \<Rightarrow> game_event list \<times> nat \<Rightarrow>
     game_event list \<times> nat" where
  "decode_events roster [] (kept, dropped) = (kept, dropped)"
| "decode_events roster (e # es) (kept, dropped) =
     (if actor e \<in> set (map player_id roster)
      then decode_events roster es (kept @ [e], dropped)
      else decode_events roster es (kept, Suc dropped))"

text \<open>
  Modelled from the spec: \<^verbatim>\<open>decode(raw_bytes) -> Result<DecodedReplay, DecodeError>\<close>
  (the parser module is missing). The header is validated first, then the length of the
  metadata block, then the roster; the frame and event sections cannot fail.
\<close>

definition decode :: "schema \<Rightarrow> raw_replay \<Rightarrow> decode_error + decoded_replay" where
  "decode sch raw =
     (if raw_magic raw \<noteq> magic sch \<or> raw_version raw < min_version sch
         \<or> max_version sch < raw_version raw
      then Inl UnsupportedFormat
      else if length (raw_buffer raw) < raw_metadata_length raw
      then Inl Truncated
      else if \<not> distinct (map player_id (raw_roster raw))
      then Inl DuplicatePlayer
      else
        let (frames, lost_frames) = decode_frames (raw_roster raw) (raw_frames raw) ([], 0);
            (events, lost_events) = decode_events (raw_roster raw) (raw_events raw) ([], 0)
        in Inr \<lparr>dec_metadata =
                   parse_metadata sch (take (raw_metadata_length raw) (raw_buffer raw)),
                 dec_roster = raw_roster raw,
                 dec_frames = frames,
                 dec_events = events,
                 dropped_frames = lost_frames,
                 dropped_events = lost_events\<rparr>)"

text \<open>
  Modelled from the spec: the samples of one entity in a decoded replay, in record order (the
  parser module is missing).
\<close>

definition samples_of :: "decoded_replay \<Rightarrow> entity \<Rightarrow> frame_sample list" where
  "samples_of d e = map sample (filter (\<lambda>r. tag r = e) (dec_frames d))"

subsection \<open>The telemetry normaliser (section 4.2)\<close>

text \<open>
  Modelled from the spec: the options of the normaliser, the canonical tick rate and the
  largest gap, in ticks, that is interpolated across (the normaliser's code is missing).
\<close>

record norm_config =
  tick_rate_hz :: nat
  max_gap_ticks :: nat

text \<open>Modelled from the spec: the length of one tick in seconds (the normaliser is missing).\<close>

definition tick :: "norm_config \<Rightarrow> rat" where
  "tick cfg = 1 / of_nat (tick_rate_hz cfg)"

text \<open>
  Modelled from the spec: a gap that exceeds the configured maximum splits the sorted samples
  of an entity into separate contiguous segments (the normaliser is missing).
\<close>

fun segments :: "rat \<Rightarrow> frame_sample list \<Rightarrow> frame_sample list list" where
  "segments gap [] = []"
| "segments gap [s] = [[s]]"
| "segments gap (s # t # rest) =
     (if gap < timestamp t - timestamp s
      then [s] # segments gap (t # rest)
      else (case segments gap (t # rest) of
              [] \<Rightarrow> [[s]]
            | seg # segs \<Rightarrow> (s # seg) # segs))"

text \<open>
  Modelled from the spec: linear interpolation of a number and of a vector, with weight \<open>w\<close>
  between 0 and 1 (the normaliser is missing).
\<close>

definition lerp :: "rat \<Rightarrow> rat \<Rightarrow> rat \<Rightarrow> rat" where
  "lerp w x y = x + w * (y - x)"

fun lerp3 :: "rat \<Rightarrow> vec3 \<Rightarrow> vec3 \<Rightarrow> vec3" where
  "lerp3 w (x1, x2, x3) (y1, y2, y3) = (lerp w x1 y1, lerp w x2 y2, lerp w x3 y3)"

text \<open>
  Modelled from the spec: linear interpolation between two real samples \<open>a\<close> and \<open>b\<close> at a
  time \<open>t\<close> between them (the normaliser is missing).
\<close>

definition interpolate :: "frame_sample \<Rightarrow> frame_sample \<Rightarrow> rat \<Rightarrow> frame_sample" where
  "interpolate a b t =
     (let w = (if timestamp b = timestamp a then 0
               else (t - timestamp a) / (timestamp b - timestamp a))
      in \<lparr>timestamp = t,
          position = lerp3 w (position a) (position b),
          velocity = lerp3 w (velocity a) (velocity b),
          orientation = lerp3 w (orientation a) (orientation b),
          scalar = lerp w (scalar a) (scalar b)\<rparr>)"

text \<open>
  Modelled from the spec: the sample of a segment at time \<open>t\<close>, interpolated between the two
  nearest real samples; \<open>a\<close> is the first real sample of the segment and \<open>rest\<close> are the
  others, in time order (the normaliser is missing).
\<close>

fun sample_at :: "frame_sample \<Rightarrow> frame_sample list \<Rightarrow> rat \<Rightarrow> frame_sample" where
  "sample_at a [] t = interpolate a a t"
| "sample_at a (b # rest) t =
     (if t < timestamp b then interpolate a b t else sample_at b rest t)"

text \<open>
  Modelled from the spec: a segment resampled to the canonical tick rate; the series begins at
  the first real sample and has one sample per tick up to the last real sample, with no
  extrapolation (the normaliser is missing).
\<close>

fun resample :: "rat \<Rightarrow> frame_sample list \<Rightarrow> frame_sample list" where
  "resample dt [] = []"
| "resample dt (a # rest) =
     (let t0 = timestamp a;
          tn = timestamp (last (a # rest));
          n = nat \<lfloor>(tn - t0) / dt\<rfloor>
      in map (\<lambda>k. sample_at a rest (t0 + of_nat k * dt)) [0..<Suc n])"

text \<open>
  Modelled from the spec: the normalised series of one entity, as its contiguous segments (the
  normaliser is missing). Fewer than two samples give the empty series; otherwise the
  samples are sorted by time stamp (a stable sort), split at the gaps and resampled.
\<close>

definition normalize_entity :: "norm_config \<Rightarrow> frame_sample list \<Rightarrow> frame_sample list list" where
  "normalize_entity cfg samples =
     (if length samples < 2 then []
      else map (resample (tick cfg))
             (segments (of_nat (max_gap_ticks cfg) * tick cfg) (sort_key timestamp samples)))"

text \<open>
  Modelled from the spec: \<^verbatim>\<open>normalize(decoded)\<close>, the series of every entity (the
  normaliser is missing).
\<close>

definition normalize ::
  "norm_config \<Rightarrow> decoded_replay \<Rightarrow> entity \<Rightarrow> frame_sample list list" where
  "normalize cfg d e = normalize_entity cfg (samples_of d e)"

text \<open>
  Modelled from the spec: the diagnostic of the normaliser for an entity with too few samples
  (the normaliser is missing).
\<close>

definition insufficient_samples :: "frame_sample list \<Rightarrow> bool" where
  "insufficient_samples samples = (length samples < 2)"

text \<open>
  Modelled from the spec: the diagnostic of the normaliser for the splits of a series, their
  number (the normaliser is missing).
\<close>

definition discontinuities :: "norm_config \<Rightarrow> frame_sample list \<Rightarrow> nat" where
  "discontinuities cfg samples = length (normalize_entity cfg samples) - 1"

text \<open>
  Modelled from the spec: the time stamps of a normalised series, over all its segments, the
  sequence the monotonicity invariant of NormalizedTimeSeries is about (the normaliser is
  missing).
\<close>

definition series_times :: "frame_sample list list \<Rightarrow> rat list" where
  "series_times segs = map timestamp (concat segs)"

text \<open>
  Modelled from the spec: consecutive segments are apart in time, the last real sample of a
  segment being earlier than the first real sample of the next one (the normaliser is
  missing).
\<close>

fun apart :: "frame_sample list list \<Rightarrow> bool" where
  "apart [] = True"
| "apart [a] = True"
| "apart (a # b # segs) = (timestamp (last a) < timestamp (hd b) \<and> apart (b # segs))"

subsection \<open>A synthetic replay\<close>

text \<open>
  Two players and the ball over 60 seconds, one goal by player 1 at 30 seconds, and twenty
  frame records of which one (5 per cent) carries the tag of a player that is not in the
  roster.
\<close>

definition at_rest :: "rat \<Rightarrow> rat \<Rightarrow> frame_sample" where
  "at_rest t x =
     \<lparr>timestamp = t, position = (x, 0, 0), velocity = (0, 0, 0), orientation = (0, 0, 0),
      scalar = 33\<rparr>"

definition demo_schema :: schema where
  "demo_schema =
     \<lparr>magic = 4242, min_version = 1, max_version = 3,
      parse_metadata = (\<lambda>bytes.
         \<lparr>map_name = ''DFH Stadium'', match_type = ''duel'', duration = 60,
          team_composition = [1, 1], format_version = 2\<rparr>)\<rparr>"

definition demo_roster :: "player_record list" where
  "demo_roster =
     [\<lparr>player_id = 1, display_name = ''blue'', team = 0, role = ''striker''\<rparr>,
      \<lparr>player_id = 2, display_name = ''orange'', team = 1, role = ''keeper''\<rparr>]"

definition demo_frames :: "frame_record list" where
  "demo_frames =
     concat (map (\<lambda>k. [\<lparr>tag = Player 1, sample = at_rest (of_nat k * 10) (of_nat k)\<rparr>,
                         \<lparr>tag = Player 2, sample = at_rest (of_nat k * 10) (- of_nat k)\<rparr>])
                 [0..<7])
     @ [\<lparr>tag = Ball, sample = at_rest 0 0\<rparr>,
        \<lparr>tag = Ball, sample = at_rest 15 40\<rparr>,
        \<lparr>tag = Player 9, sample = at_rest 20 5\<rparr>,
        \<lparr>tag = Ball, sample = at_rest 30 100\<rparr>,
        \<lparr>tag = Ball, sample = at_rest 45 0\<rparr>,
        \<lparr>tag = Ball, sample = at_rest 60 0\<rparr>]"

definition demo_raw :: raw_replay where
  "demo_raw =
     \<lparr>raw_magic = 4242, raw_version = 2, raw_metadata_length = 4,
      raw_buffer = [68, 70, 72, 0, 9, 9],
      raw_roster = demo_roster,
      raw_frames = demo_frames,
      raw_events = [\<lparr>event_time = 30, event_type = ''goal'', actor = 1, target = None\<rparr>]\<rparr>"

definition demo_decoded :: decoded_replay where
  "demo_decoded =
     \<lparr>dec_metadata = parse_metadata demo_schema [68, 70, 72, 0],
      dec_roster = demo_roster,
      dec_frames = filter (\<lambda>r. tag r \<noteq> Player 9) demo_frames,
      dec_events = [\<lparr>event_time = 30, event_type = ''goal'', actor = 1, target = None\<rparr>],
      dropped_frames = 0,
      dropped_events = 0\<rparr>"

definition demo_norm_config :: norm_config where
  "demo_norm_config = \<lparr>tick_rate_hz = 1, max_gap_ticks = 20\<rparr>"

section \<open>The analysis engine, from the specification\<close>

text \<open>
  The analyser module is not among the sources at hand either; the engine is modelled from
  section 4.3. The specification leaves the formulas, weights and thresholds to a policy
  table, which is a parameter here. Findings and recommendations are not modelled.
\<close>

text \<open>
  Modelled from the spec: a score on the 0-100 scale, or the sentinel for a score that has no
  data behind it (the analyser module is missing).
\<close>

datatype score = Not_applicable | Score rat

text \<open>
  Modelled from the spec: a row of the policy table, with the name of the category, its weight
  in the overall score, the metric computed for an entity from the normalised series of all
  entities and the events, and the known bounds of that metric (the analyser module is
  missing).
\<close>

record category =
  cat_name :: string
  cat_weight :: rat
  cat_metric :: "entity \<Rightarrow> (entity \<Rightarrow> frame_sample list) \<Rightarrow> game_event list \<Rightarrow> rat"
  cat_lo :: rat
  cat_hi :: rat

text \<open>
  Modelled from the spec: the policy table is usable when it has a row, every weight is
  positive and the bounds of every metric are in order (the analyser module is missing).
\<close>

definition valid_policy :: "category list \<Rightarrow> bool" where
  "valid_policy policy =
     (policy \<noteq> [] \<and> list_all (\<lambda>c. 0 < cat_weight c \<and> cat_lo c < cat_hi c) policy)"

text \<open>
  Modelled from the spec: linear scaling of a metric against its known bounds, onto the 0-100
  scale; a value beyond a bound is taken at the bound (the analyser module is missing).
\<close>

definition scale :: "category \<Rightarrow> rat \<Rightarrow> rat" where
  "scale c x = 100 * (max (cat_lo c) (min (cat_hi c) x) - cat_lo c) / (cat_hi c - cat_lo c)"

text \<open>
  Modelled from the spec: the contribution of one entity to a category; an entity whose
  series is empty has insufficient data and gets the sentinel, not zero (the analyser module
  is missing).
\<close>

definition sub_score ::
  "category \<Rightarrow> entity \<Rightarrow> (entity \<Rightarrow> frame_sample list) \<Rightarrow> game_event list \<Rightarrow> score" where
  "sub_score c e series events =
     (if series e = [] then Not_applicable
      else Score (scale c (cat_metric c e series events)))"

text \<open>
  Modelled from the spec: the scores that are numbers, the sentinel being left out (the
  analyser module is missing).
\<close>

fun applicable :: "score list \<Rightarrow> rat list" where
  "applicable [] = []"
| "applicable (Not_applicable # ss) = applicable ss"
| "applicable (Score x # ss) = x # applicable ss"

text \<open>
  Modelled from the spec: the score of a category, the mean of the contributions that are
  applicable, and the sentinel when there is none (the analyser module is missing).
\<close>

definition mean_score :: "score list \<Rightarrow> score" where
  "mean_score ss =
     (case applicable ss of
        [] \<Rightarrow> Not_applicable
      | x # xs \<Rightarrow> Score (sum_list (x # xs) / of_nat (length (x # xs))))"

text \<open>
  Modelled from the spec: the weighted categories whose score is a number (the analyser module
  is missing).
\<close>

fun weighted :: "(rat \<times> score) list \<Rightarrow> (rat \<times> rat) list" where
  "weighted [] = []"
| "weighted ((w, Not_applicable) # ps) = weighted ps"
| "weighted ((w, Score x) # ps) = (w, x) # weighted ps"

text \<open>
  Modelled from the spec: the overall score, the weighted combination of the category scores
  with the weights of the policy table. A category without a score is left out and the
  weights of the others are renormalised, so that it does not count as zero; with nothing
  to combine the overall score is the sentinel (the analyser module is missing).
\<close>

definition overall_score :: "(rat \<times> score) list \<Rightarrow> score" where
  "overall_score ps =
     (let total = sum_list (map fst (weighted ps))
      in if total = 0 then Not_applicable
         else Score (sum_list (map (\<lambda>(w, x). w * x) (weighted ps)) / total))"

text \<open>
  Modelled from the spec: the metric bundle of a category, with the contribution of every
  entity, the score of the category and the entities it had no data for (the analyser module
  is missing).
\<close>

record category_result =
  res_name :: string
  res_sub_scores :: "(entity \<times> score) list"
  res_score :: score
  res_insufficient :: "entity list"

text \<open>Modelled from the spec: AnalysisResult with the OverallScore (the analyser is missing).\<close>

record analysis_result =
  category_results :: "category_result list"
  overall :: score

text \<open>
  Modelled from the spec: the analysis of one category over the entities that are scored (the
  analyser module is missing).
\<close>

definition analyze_category ::
  "entity list \<Rightarrow> (entity \<Rightarrow> frame_sample list) \<Rightarrow> game_event list \<Rightarrow> category \<Rightarrow>
     category_result" where
  "analyze_category entities series events c =
     \<lparr>res_name = cat_name c,
      res_sub_scores = map (\<lambda>e. (e, sub_score c e series events)) entities,
      res_score = mean_score (map (\<lambda>e. sub_score c e series events) entities),
      res_insufficient = filter (\<lambda>e. series e = []) entities\<rparr>"

text \<open>
  Modelled from the spec: \<^verbatim>\<open>analyze(series, events, metadata) -> AnalysisResult\<close> for the
  entities that are scored (the analyser module is missing).
\<close>

definition analyze_series ::
  "category list \<Rightarrow> entity list \<Rightarrow> (entity \<Rightarrow> frame_sample list) \<Rightarrow> game_event list \<Rightarrow>
     analysis_result" where
  "analyze_series policy entities series events =
     (let results = map (analyze_category entities series events) policy
      in \<lparr>category_results = results,
          overall = overall_score (zip (map cat_weight policy) (map res_score results))\<rparr>)"

text \<open>
  Modelled from the spec: the events of a type attributed to a player through the actor of
  their payload (the analyser module is missing).
\<close>

definition attributed :: "game_event list \<Rightarrow> string \<Rightarrow> nat \<Rightarrow> game_event list" where
  "attributed events ty p = filter (\<lambda>ev. event_type ev = ty \<and> actor ev = p) events"

text \<open>
  Modelled from the spec: the pooled series of an entity, all its segments one after the other
  (the analyser module is missing).
\<close>

definition pooled :: "norm_config \<Rightarrow> decoded_replay \<Rightarrow> entity \<Rightarrow> frame_sample list" where
  "pooled cfg d e = concat (normalize cfg d e)"

text \<open>
  Modelled from the spec: the pipeline after decoding, in which the players of the roster are
  scored on their normalised series (the analyser module is missing).
\<close>

definition analyze_replay ::
  "norm_config \<Rightarrow> category list \<Rightarrow> decoded_replay \<Rightarrow> analysis_result" where
  "analyze_replay cfg policy d =
     analyze_series policy (map (\<lambda>p. Player (player_id p)) (dec_roster d)) (pooled cfg d)
       (dec_events d)"

text \<open>
  A policy with two categories: the mean distance from the origin, and the goals scored.
\<close>

definition demo_policy :: "category list" where
  "demo_policy =
     [\<lparr>cat_name = ''positioning'', cat_weight = 2,
       cat_metric = (\<lambda>e series events.
          sum_list (map (\<lambda>s. \<bar>fst (position s)\<bar>) (series e)) / of_nat (length (series e))),
       cat_lo = 0, cat_hi = 10\<rparr>,
      \<lparr>cat_name = ''contribution'', cat_weight = 1,
       cat_metric = (\<lambda>e series events.
          (case e of Ball \<Rightarrow> 0 | Player p \<Rightarrow> of_nat (length (attributed events ''goal'' p)))),
       cat_lo = 0, cat_hi = 2\<rparr>]"

text \<open>A replay in which player 2 has a single frame record.\<close>

definition sparse_decoded :: decoded_replay where
  "sparse_decoded =
     demo_decoded\<lparr>dec_frames :=
        filter (\<lambda>r. tag r \<noteq> Player 2 \<or> timestamp (sample r) = 0) (dec_frames demo_decoded)\<rparr>"

section \<open>Properties of the integrator\<close>

subsection \<open>Blocks of calls\<close>

lemma run_calls_prefix: "\<exists>k. fst (run_calls r cs tr) = tr @ take k cs"
proof (induction cs arbitrary: tr)
  case Nil
  show ?case by simp
next
  case (Cons c cs)
  show ?case
  proof (cases "raises_at r (length tr) c")
    case None
    from Cons.IH [of "tr @ [c]"] obtain k
      where "fst (run_calls r cs (tr @ [c])) = (tr @ [c]) @ take k cs" ..
    then have "fst (run_calls r (c # cs) tr) = tr @ take (Suc k) (c # cs)"
      by (simp add: None)
    then show ?thesis ..
  next
    case (Some e)
    have "fst (run_calls r (c # cs) tr) = tr @ take (Suc 0) (c # cs)"
      by (simp add: Some)
    then show ?thesis ..
  qed
qed

lemma run_calls_complete:
  "snd (run_calls r cs tr) = None \<Longrightarrow> fst (run_calls r cs tr) = tr @ cs"
  by (induction cs arbitrary: tr) (auto split: option.splits)

lemma run_calls_raised:
  "snd (run_calls r cs tr) = Some e \<Longrightarrow>
     fst (run_calls r cs tr) \<noteq> [] \<and>
     raises_at r (length (fst (run_calls r cs tr)) - 1) (last (fst (run_calls r cs tr))) = Some e"
  by (induction cs arbitrary: tr) (auto split: option.splits)

lemma run_calls_nth_old: "i < length tr \<Longrightarrow> fst (run_calls r cs tr) ! i = tr ! i"
proof -
  assume i: "i < length tr"
  from run_calls_prefix [of r cs tr] obtain k where "fst (run_calls r cs tr) = tr @ take k cs" ..
  then show ?thesis using i by (simp add: nth_append)
qed

lemma run_calls_set: "set (fst (run_calls r cs tr)) \<subseteq> set tr \<union> set cs"
proof -
  from run_calls_prefix [of r cs tr] obtain k where "fst (run_calls r cs tr) = tr @ take k cs" ..
  then show ?thesis using set_take_subset [of k cs] by auto
qed

text \<open>
  A call of the block that did not end it has not raised: either another call follows it in
  the trace, or the block ran to its end.
\<close>

lemma run_calls_earlier:
  "length tr \<le> i \<Longrightarrow> i < length (fst (run_calls r cs tr)) \<Longrightarrow>
   Suc i < length (fst (run_calls r cs tr)) \<or> snd (run_calls r cs tr) = None \<Longrightarrow>
     raises_at r i (fst (run_calls r cs tr) ! i) = None"
proof (induction cs arbitrary: tr)
  case Nil
  then show ?case by simp
next
  case (Cons c cs)
  show ?case
  proof (cases "raises_at r (length tr) c")
    case None
    have eq: "run_calls r (c # cs) tr = run_calls r cs (tr @ [c])" by (simp add: None)
    show ?thesis
    proof (cases "i = length tr")
      case True
      then have "fst (run_calls r cs (tr @ [c])) ! i = c"
        using run_calls_nth_old [of i "tr @ [c]" r cs] by simp
      then show ?thesis using None True eq by simp
    next
      case False
      with Cons.prems have "length (tr @ [c]) \<le> i" by simp
      moreover have "i < length (fst (run_calls r cs (tr @ [c])))"
        using Cons.prems(2) eq by simp
      moreover have "Suc i < length (fst (run_calls r cs (tr @ [c])))
                     \<or> snd (run_calls r cs (tr @ [c])) = None"
        using Cons.prems(3) eq by simp
      ultimately show ?thesis using Cons.IH [of "tr @ [c]"] eq by simp
    qed
  next
    case (Some e)
    with Cons.prems show ?thesis by simp
  qed
qed

lemma parsing_calls_stage:
  "c \<in> set (parsing_calls result_dir replay_path) \<Longrightarrow>
     \<not> analysis_call c \<and> \<not> export_call c \<and> \<not> visualization_call c"
  by (auto simp: parsing_calls_def)

lemma quiet_iff: "quiet r tr \<longleftrightarrow> (\<forall>i < length tr. raises_at r i (tr ! i) = None)"
  by (auto simp: quiet_def list_all_iff in_set_enumerate_eq)

lemma quiet_run_calls:
  assumes "quiet r tr"
  shows "quiet r (butlast (fst (run_calls r cs tr)))"
    and "snd (run_calls r cs tr) = None \<Longrightarrow> quiet r (fst (run_calls r cs tr))"
proof -
  let ?t = "fst (run_calls r cs tr)"
  have old: "raises_at r i (?t ! i) = None" if "i < length tr" for i
    using that assms run_calls_nth_old [of i tr r cs] by (simp add: quiet_iff)
  have new: "raises_at r i (?t ! i) = None"
    if "i < length ?t" "Suc i < length ?t \<or> snd (run_calls r cs tr) = None" for i
  proof (cases "i < length tr")
    case True
    then show ?thesis by (rule old)
  next
    case False
    then show ?thesis using that run_calls_earlier [of tr i r cs] by simp
  qed
  show "quiet r (butlast ?t)"
    unfolding quiet_iff by (auto simp: nth_butlast intro: new)
  show "quiet r ?t" if "snd (run_calls r cs tr) = None"
    unfolding quiet_iff using that by (auto intro: new)
qed

lemma quiet_Nil: "quiet r []"
  by (simp add: quiet_def)

lemma quiet_snoc_print: "quiet r tr \<Longrightarrow> quiet r (butlast (tr @ [c]))"
  by simp

lemma external_prefix:
  "prefix (external_calls (take k xs)) (external_calls (xs @ ys))"
proof -
  have "prefix (take k xs) (xs @ ys)"
    by (meson prefix_order.trans take_is_prefix prefixI)
  then show ?thesis unfolding external_calls_def by (rule filter_mono_prefix)
qed

lemma external_prefix_app:
  "prefix (external_calls (xs @ take k ys)) (external_calls (xs @ ys))"
proof -
  have "prefix (xs @ take k ys) (xs @ ys)" by (simp add: take_is_prefix)
  then show ?thesis unfolding external_calls_def by (rule filter_mono_prefix)
qed

text \<open>The five ways a run can go.\<close>

lemma process_replay_cases:
  fixes env :: "('a, 'df) env" and self :: "'a integrator"
    and replay_path :: path and result_id :: "string option"
  defines "rd \<equiv> join (results_dir self) (make_result_id (now_stamp env) replay_path result_id)"
  defines "pc \<equiv> parsing_calls rd replay_path :: 'df call list"
  defines "a \<equiv> analyzed env replay_path (analyzer self)"
  defines "rc \<equiv> remaining_calls env rd replay_path a"
  defines "self1 \<equiv> self\<lparr>visualizer_dir := rd, parser := Some replay_path\<rparr>"
  obtains
    (missing) "\<not> path_exists (fs env) replay_path"
      "process_replay env self replay_path result_id =
         (Returned None self,
          [Print (''Erro: Arquivo '' @ replay_path @ '' n'' @ [CHR 0xE3] @ ''o encontrado.'')])"
  | (parsing_raised) e where "path_exists (fs env) replay_path"
      "snd (run_calls (raises env) pc []) = Some e"
      "process_replay env self replay_path result_id = (Raised e, fst (run_calls (raises env) pc []))"
  | (parse_false) "path_exists (fs env) replay_path"
      "snd (run_calls (raises env) pc []) = None" "\<not> parse_truthy env replay_path"
      "process_replay env self replay_path result_id =
         (Returned None self1, pc @ [Print ''Falha ao analisar o replay.''])"
  | (later_raised) e where "path_exists (fs env) replay_path"
      "snd (run_calls (raises env) pc []) = None" "parse_truthy env replay_path"
      "snd (run_calls (raises env) rc pc) = Some e"
      "process_replay env self replay_path result_id = (Raised e, fst (run_calls (raises env) rc pc))"
  | (complete) "path_exists (fs env) replay_path"
      "snd (run_calls (raises env) pc []) = None" "parse_truthy env replay_path"
      "snd (run_calls (raises env) rc pc) = None"
      "process_replay env self replay_path result_id =
         (Returned (Some (compile_results env (make_result_id (now_stamp env) replay_path result_id)
                            replay_path rd a)) (self1\<lparr>analyzer := a\<rparr>),
          pc @ rc)"
proof (cases "path_exists (fs env) replay_path")
  case False
  then show ?thesis by (intro missing) (simp_all add: process_replay_def)
next
  case ex: True
  show ?thesis
  proof (cases "snd (run_calls (raises env) pc [])")
    case (Some e)
    obtain tr where b1: "run_calls (raises env) pc [] = (tr, Some e)"
      using Some by (cases "run_calls (raises env) pc []") simp
    have "process_replay env self replay_path result_id = (Raised e, tr)"
      using ex b1 by (simp add: process_replay_def Let_def rd_def [symmetric] pc_def [symmetric])
    then have "process_replay env self replay_path result_id
               = (Raised e, fst (run_calls (raises env) pc []))"
      by (simp add: b1)
    with ex Some show ?thesis by (rule parsing_raised)
  next
    case None
    from run_calls_complete [OF None]
    have b1: "run_calls (raises env) pc [] = (pc, None)" using None by (simp add: prod_eq_iff)
    show ?thesis
    proof (cases "parse_truthy env replay_path")
      case False
      have "process_replay env self replay_path result_id =
         (Returned None self1, pc @ [Print ''Falha ao analisar o replay.''])"
        using ex False b1
        by (simp add: process_replay_def Let_def rd_def [symmetric] pc_def [symmetric] self1_def)
      with ex None False show ?thesis by (rule parse_false)
    next
      case pt: True
      show ?thesis
      proof (cases "snd (run_calls (raises env) rc pc)")
        case (Some e)
        obtain tr where b2: "run_calls (raises env) rc pc = (tr, Some e)"
          using Some by (cases "run_calls (raises env) rc pc") simp
        have "process_replay env self replay_path result_id = (Raised e, tr)"
          using ex pt b1 b2
          by (simp add: process_replay_def Let_def rd_def [symmetric] pc_def [symmetric]
                a_def [symmetric] rc_def [symmetric])
        then have "process_replay env self replay_path result_id
                = (Raised e, fst (run_calls (raises env) rc pc))"
          by (simp add: b2)
        with ex None pt Some show ?thesis by (rule later_raised)
      next
        case n2: None
        from run_calls_complete [OF n2]
        have b2: "run_calls (raises env) rc pc = (pc @ rc, None)" using n2 by (simp add: prod_eq_iff)
        have "process_replay env self replay_path result_id =
         (Returned (Some (compile_results env (make_result_id (now_stamp env) replay_path result_id)
                            replay_path rd a)) (self1\<lparr>analyzer := a\<rparr>),
          pc @ rc)"
          using ex pt b1 b2
          by (simp add: process_replay_def Let_def rd_def [symmetric] pc_def [symmetric]
                a_def [symmetric] rc_def [symmetric] self1_def)
        with ex None pt n2 show ?thesis by (rule complete)
      qed
    qed
  qed
qed

lemma external_snoc_print: "external_calls (tr @ [Print s]) = external_calls tr"
  by (simp add: external_calls_def)

section \<open>The claims about the integrator\<close>

subsection \<open>A replay file that does not exist\<close>

text \<open>
  Claim C9. For every replay path that does not exist on disk, \<^verbatim>\<open>process_replay\<close>
  returns \<^verbatim>\<open>None\<close> before any result directory is created and before any parsing,
  analysis or visualisation step: the integrator is left as it was and the only thing the
  run does is print the error message.
\<close>

theorem process_replay_missing_file:
  assumes "\<not> path_exists (fs env) replay_path"
  shows "fst (process_replay env self replay_path result_id) = Returned None self \<and>
         filter (\<lambda>c. \<not> is_print c) (snd (process_replay env self replay_path result_id)) = []"
  using assms by (simp add: process_replay_def)

theorem process_replay_missing_file_witness:
  "\<not> path_exists (fs demo_env) ''absent.replay'' \<and>
   fst (process_replay demo_env demo_self ''absent.replay'' None) = Returned None demo_self \<and>
   filter (\<lambda>c. \<not> is_print c) (snd (process_replay demo_env demo_self ''absent.replay'' None)) = []"
proof -
  have h: "\<not> path_exists (fs demo_env) ''absent.replay''"
    by (simp add: path_exists_def demo_env_def)
  from process_replay_missing_file [OF h, of demo_self None] h show ?thesis by simp
qed

subsection \<open>A replay that fails to decode\<close>

text \<open>
  Claim C1. For every replay path, if decoding fails (the run reaches \<^verbatim>\<open>parse()\<close>
  and \<^verbatim>\<open>parse()\<close> returns a false value), \<^verbatim>\<open>process_replay\<close> returns
  \<^verbatim>\<open>None\<close>, and no analysis step, no export step and no visualisation step is
  executed in that run; the analyser object is not touched, so no analysis result, partial or
  complete, is produced.
\<close>

theorem process_replay_decode_failure:
  assumes "decoding_fails env self replay_path result_id"
  shows "fst (process_replay env self replay_path result_id) =
           Returned None
             (self\<lparr>visualizer_dir :=
                      join (results_dir self)
                        (make_result_id (now_stamp env) replay_path result_id),
                   parser := Some replay_path\<rparr>) \<and>
         (\<forall>c \<in> set (snd (process_replay env self replay_path result_id)).
            \<not> analysis_call c \<and> \<not> export_call c \<and> \<not> visualization_call c)"
proof -
  define rd where "rd = join (results_dir self) (make_result_id (now_stamp env) replay_path result_id)"
  from assms have ex: "path_exists (fs env) replay_path"
    and ok: "snd (run_calls (raises env) (parsing_calls rd replay_path) []) = None"
    and nt: "\<not> parse_truthy env replay_path"
    by (simp_all add: decoding_fails_def rd_def Let_def)
  from run_calls_complete [OF ok]
  have tr: "run_calls (raises env) (parsing_calls rd replay_path) [] = (parsing_calls rd replay_path, None)"
    using ok by (simp add: prod_eq_iff)
  have R: "process_replay env self replay_path result_id =
        (Returned None (self\<lparr>visualizer_dir := rd, parser := Some replay_path\<rparr>),
         parsing_calls rd replay_path @ [Print ''Falha ao analisar o replay.''])"
    using ex nt tr by (simp add: process_replay_def Let_def rd_def [symmetric])
  show ?thesis
    unfolding R rd_def [symmetric] using parsing_calls_stage [of _ rd replay_path] by auto
qed

theorem process_replay_decode_failure_witness:
  "decoding_fails failing_env demo_self ''match.replay'' None \<and>
   fst (process_replay failing_env demo_self ''match.replay'' None) =
     Returned None
       (demo_self\<lparr>visualizer_dir := ''/app/data/results/match_20240101120000'',
                  parser := Some ''match.replay''\<rparr>) \<and>
   filter (\<lambda>c. analysis_call c \<or> export_call c \<or> visualization_call c)
     (snd (process_replay failing_env demo_self ''match.replay'' None)) = []"
proof -
  have h: "decoding_fails failing_env demo_self ''match.replay'' None"
    by code_simp
  have j: "join (results_dir demo_self)
             (make_result_id (now_stamp failing_env) ''match.replay'' None)
           = ''/app/data/results/match_20240101120000''"
    by code_simp
  note t = process_replay_decode_failure [OF h, unfolded j]
  from t have "filter (\<lambda>c. analysis_call c \<or> export_call c \<or> visualization_call c)
     (snd (process_replay failing_env demo_self ''match.replay'' None)) = []"
    by (simp add: filter_empty_conv)
  with h t show ?thesis by blast
qed

subsection \<open>The order of the steps\<close>

text \<open>
  Claim C2, as stated: in every run the stages execute in the order decode, then
  normalisation and analysis, then export and visualisation. In a run that goes through,
  \<^verbatim>\<open>export_to_json\<close> and the two \<^verbatim>\<open>to_csv\<close> calls (export) come before the
  data are loaded into the analyser (analysis), so the stages of the trace are not in that
  order.
\<close>

theorem process_replay_stage_order_counterexample:
  "\<not> stages_in_order (snd (process_replay demo_env demo_self ''match.replay'' (Some ''r1'')))"
  by code_simp

text \<open>What every run has in common with the sequence of calls of a run that goes through.\<close>

lemma process_replay_trace:
  fixes env :: "('a, 'df) env"
  shows
    "prefix (external_calls (snd (process_replay env self replay_path result_id)))
            (external_calls (pipeline_calls env self replay_path result_id)) \<and>
     quiet (raises env) (butlast (snd (process_replay env self replay_path result_id))) \<and>
     (\<forall>e. fst (process_replay env self replay_path result_id) = Raised e \<longrightarrow>
        snd (process_replay env self replay_path result_id) \<noteq> [] \<and>
        raises_at (raises env)
          (length (snd (process_replay env self replay_path result_id)) - 1)
          (last (snd (process_replay env self replay_path result_id))) = Some e) \<and>
     (\<not> parse_truthy env replay_path \<longrightarrow>
        prefix (external_calls (snd (process_replay env self replay_path result_id)))
               (external_calls
                  (parsing_calls
                     (join (results_dir self)
                        (make_result_id (now_stamp env) replay_path result_id))
                     replay_path))) \<and>
     (\<forall>res s. fst (process_replay env self replay_path result_id) = Returned (Some res) s \<longrightarrow>
        snd (process_replay env self replay_path result_id)
          = pipeline_calls env self replay_path result_id \<and>
        quiet (raises env) (snd (process_replay env self replay_path result_id)))"
  (is "?order \<and> ?quiet \<and> ?raised \<and> ?parse \<and> ?complete")
proof -
  define rd where "rd = join (results_dir self) (make_result_id (now_stamp env) replay_path result_id)"
  define pc :: "'df call list" where "pc = parsing_calls rd replay_path"
  define rc where "rc = remaining_calls env rd replay_path (analyzed env replay_path (analyzer self))"
  define r where "r = raises env"
  have pl: "pipeline_calls env self replay_path result_id = pc @ rc"
    by (simp add: pipeline_calls_def Let_def rd_def pc_def rc_def)
  have q0: "quiet r []" by (rule quiet_Nil)
  have pfx: "prefix (external_calls (take k pc)) (external_calls pc)" for k
    using external_prefix [of k pc "[]"] by simp
  show ?thesis
  proof (cases rule: process_replay_cases [where env=env and self=self and replay_path=replay_path
      and result_id=result_id])
    case missing
    then show ?thesis
      by (simp add: external_calls_def quiet_Nil)
  next
    case (parsing_raised e)
    note R = parsing_raised(3) [folded rd_def, folded pc_def r_def]
    note S = parsing_raised(2) [folded rd_def, folded pc_def r_def]
    from run_calls_prefix [of r pc "[]"] obtain k where k: "fst (run_calls r pc []) = take k pc"
      by auto
    have 1: ?order unfolding R pl snd_conv k by (rule external_prefix)
    have 2: ?quiet unfolding R snd_conv r_def [symmetric] by (rule quiet_run_calls(1) [OF q0])
    have 3: ?raised unfolding R fst_conv snd_conv r_def [symmetric]
      using run_calls_raised [OF S] by simp
    have 4: ?parse unfolding R snd_conv k rd_def [symmetric] pc_def [symmetric]
      using pfx [of k] by simp
    have 5: ?complete unfolding R by simp
    from 1 2 3 4 5 show ?thesis by blast
  next
    case parse_false
    note R = parse_false(4) [folded rd_def, folded pc_def]
    note S = parse_false(2) [folded rd_def, folded pc_def r_def]
    have full: "fst (run_calls r pc []) = pc" using run_calls_complete [OF S] by simp
    have qpc: "quiet r pc" using quiet_run_calls(2) [OF q0 S] by (simp add: full)
    have 1: ?order unfolding R pl snd_conv external_snoc_print
      using external_prefix [of "length pc" pc rc] by simp
    have 2: ?quiet unfolding R snd_conv r_def [symmetric] using qpc by simp
    have 3: ?raised unfolding R by simp
    have 4: ?parse unfolding R snd_conv rd_def [symmetric] pc_def [symmetric] external_snoc_print
      by simp
    have 5: ?complete unfolding R by simp
    from 1 2 3 4 5 show ?thesis by blast
  next
    case (later_raised e)
    note R = later_raised(5) [folded rd_def, folded pc_def rc_def r_def]
    note S1 = later_raised(2) [folded rd_def, folded pc_def r_def]
    note S2 = later_raised(4) [folded rd_def, folded pc_def rc_def r_def]
    have full: "fst (run_calls r pc []) = pc" using run_calls_complete [OF S1] by simp
    have qpc: "quiet r pc" using quiet_run_calls(2) [OF q0 S1] by (simp add: full)
    from run_calls_prefix [of r rc pc] obtain k where k: "fst (run_calls r rc pc) = pc @ take k rc"
      by auto
    have 1: ?order unfolding R pl snd_conv k by (rule external_prefix_app)
    have 2: ?quiet unfolding R snd_conv r_def [symmetric] by (rule quiet_run_calls(1) [OF qpc])
    have 3: ?raised unfolding R fst_conv snd_conv r_def [symmetric]
      using run_calls_raised [OF S2] by simp
    have 4: ?parse using later_raised(3) by simp
    have 5: ?complete unfolding R by simp
    from 1 2 3 4 5 show ?thesis by blast
  next
    case complete
    note R = complete(5) [folded rd_def, folded pc_def rc_def]
    note S1 = complete(2) [folded rd_def, folded pc_def r_def]
    note S2 = complete(4) [folded rd_def, folded pc_def rc_def r_def]
    have full: "fst (run_calls r pc []) = pc" using run_calls_complete [OF S1] by simp
    have qpc: "quiet r pc" using quiet_run_calls(2) [OF q0 S1] by (simp add: full)
    have full2: "fst (run_calls r rc pc) = pc @ rc" using run_calls_complete [OF S2] by simp
    have qall: "quiet r (pc @ rc)" using quiet_run_calls(2) [OF qpc S2] by (simp add: full2)
    have qbl: "quiet r (butlast (pc @ rc))"
      using quiet_run_calls(1) [OF qpc, of rc] by (simp only: full2)
    have 1: ?order unfolding R pl snd_conv by simp
    have 2: ?quiet unfolding R snd_conv r_def [symmetric] by (rule qbl)
    have 3: ?raised unfolding R by simp
    have 4: ?parse using complete(3) by simp
    have 5: ?complete unfolding R pl snd_conv r_def [symmetric] using qall by simp
    from 1 2 3 4 5 show ?thesis by blast
  qed
qed

lemma phases_pipeline_calls:
  "phases (pipeline_calls env self replay_path result_id) = pipeline_phases"
  by (simp add: phases_def pipeline_calls_def parsing_calls_def remaining_calls_def Let_def
        List.map_filter_simps pipeline_phases_def)

lemma methods_pipeline_calls:
  "map method_of (external_calls (pipeline_calls env self replay_path result_id))
     = pipeline_methods"
  by (simp add: external_calls_def pipeline_calls_def parsing_calls_def remaining_calls_def
        Let_def pipeline_methods_def)

lemma phases_parsing_calls:
  "phases (parsing_calls result_dir replay_path) = [0, 0]"
  by (simp add: phases_def parsing_calls_def List.map_filter_simps)

lemma phases_external: "phases (external_calls tr) = phases tr"
proof (induction tr)
  case Nil
  show ?case by (simp add: phases_def external_calls_def)
next
  case (Cons c tr)
  then show ?case
    by (cases c) (simp_all add: phases_def external_calls_def List.map_filter_simps)
qed

lemma phases_prefix: "prefix xs ys \<Longrightarrow> prefix (phases xs) (phases ys)"
  unfolding phases_def List.map_filter_def
  by (intro map_mono_prefix filter_mono_prefix)

lemma sorted_prefix:
  fixes ys :: "nat list"
  shows "prefix xs ys \<Longrightarrow> sorted ys \<Longrightarrow> sorted xs"
  by (auto simp: prefix_def sorted_append)

lemma sorted_pipeline_phases: "sorted pipeline_phases"
  by (simp add: pipeline_phases_def)

text \<open>
  Claim C2, amended. In every run of \<^verbatim>\<open>process_replay\<close> the calls are made in one
  fixed order: the parser is built and run; the decoded data are exported
  (\<^verbatim>\<open>replay_data.json\<close>, the two CSV files); the analyser is loaded and run and its
  results are exported (\<^verbatim>\<open>analysis_results.json\<close>); the charts are drawn. A failure
  at any step short-circuits the run, where a step fails by raising or, for
  \<^verbatim>\<open>parse()\<close>, by returning a false value: the calls of the trace are an initial
  segment of the fixed sequence, no call that is followed by another call has raised, a run
  that raises ends with the call that raised, nothing follows a \<^verbatim>\<open>parse()\<close> that
  returned a false value, and a run that returns a result has made every call.

  The fixed sequence is stated twice, apart from the definition of the method: by the
  methods called, one by one (\<open>pipeline_methods\<close>), and by the phase of each call
  (\<open>pipeline_phases\<close>: decode, export of the decoded data, analysis, export of the results,
  charts), so that the phases of every trace are in this order.
\<close>

theorem process_replay_fixed_order:
  fixes env :: "('a, 'df) env"
  shows
    "prefix (external_calls (snd (process_replay env self replay_path result_id)))
            (external_calls (pipeline_calls env self replay_path result_id)) \<and>
     prefix (map method_of (external_calls (snd (process_replay env self replay_path result_id))))
            pipeline_methods \<and>
     prefix (phases (snd (process_replay env self replay_path result_id))) pipeline_phases \<and>
     sorted (phases (snd (process_replay env self replay_path result_id))) \<and>
     quiet (raises env) (butlast (snd (process_replay env self replay_path result_id))) \<and>
     (\<forall>e. fst (process_replay env self replay_path result_id) = Raised e \<longrightarrow>
        snd (process_replay env self replay_path result_id) \<noteq> [] \<and>
        raises_at (raises env)
          (length (snd (process_replay env self replay_path result_id)) - 1)
          (last (snd (process_replay env self replay_path result_id))) = Some e) \<and>
     (\<not> parse_truthy env replay_path \<longrightarrow>
        prefix (external_calls (snd (process_replay env self replay_path result_id)))
               (external_calls
                  (parsing_calls
                     (join (results_dir self)
                        (make_result_id (now_stamp env) replay_path result_id))
                     replay_path)) \<and>
        prefix (phases (snd (process_replay env self replay_path result_id))) [0, 0]) \<and>
     (\<forall>res s. fst (process_replay env self replay_path result_id) = Returned (Some res) s \<longrightarrow>
        snd (process_replay env self replay_path result_id)
          = pipeline_calls env self replay_path result_id \<and>
        quiet (raises env) (snd (process_replay env self replay_path result_id)) \<and>
        map method_of (external_calls (snd (process_replay env self replay_path result_id)))
          = pipeline_methods \<and>
        phases (snd (process_replay env self replay_path result_id)) = pipeline_phases)"
proof -
  define tr where "tr = snd (process_replay env self replay_path result_id)"
  define pl where "pl = pipeline_calls env self replay_path result_id"
  define pc :: "'df call list" where "pc = parsing_calls
                  (join (results_dir self)
                     (make_result_id (now_stamp env) replay_path result_id)) replay_path"
  note t = process_replay_trace [of env self replay_path result_id,
      folded tr_def pl_def pc_def]
  from t have pre: "prefix (external_calls tr) (external_calls pl)" by blast
  have m: "prefix (map method_of (external_calls tr)) pipeline_methods"
    using map_mono_prefix [OF pre, of method_of]
    by (simp add: pl_def methods_pipeline_calls)
  have ph: "prefix (phases tr) pipeline_phases"
    using phases_prefix [OF pre]
    by (simp add: phases_external pl_def phases_pipeline_calls)
  have so: "sorted (phases tr)"
    by (rule sorted_prefix [OF ph sorted_pipeline_phases])
  have pf: "prefix (phases tr) [0, 0]" if "\<not> parse_truthy env replay_path"
  proof -
    from t that have "prefix (external_calls tr) (external_calls pc)" by blast
    from phases_prefix [OF this] show ?thesis
      by (simp add: phases_external pc_def phases_parsing_calls)
  qed
  have co: "map method_of (external_calls tr) = pipeline_methods \<and> phases tr = pipeline_phases"
    if "fst (process_replay env self replay_path result_id) = Returned (Some res) s" for res s
  proof -
    from t that have "tr = pl" by blast
    then show ?thesis by (simp add: pl_def methods_pipeline_calls phases_pipeline_calls)
  qed
  from t m ph so pf co show ?thesis
    unfolding tr_def [symmetric] pl_def [symmetric] pc_def [symmetric] by blast
qed

theorem process_replay_fixed_order_witness:
  "fst (process_replay analyze_raises_env demo_self ''match.replay'' (Some ''r1''))
     = Raised (External ''ValueError'') \<and>
   last (snd (process_replay analyze_raises_env demo_self ''match.replay'' (Some ''r1'')))
     = Analyze \<and>
   raises_at (raises analyze_raises_env)
     (length (snd (process_replay analyze_raises_env demo_self ''match.replay'' (Some ''r1''))) - 1)
     (last (snd (process_replay analyze_raises_env demo_self ''match.replay'' (Some ''r1''))))
     = Some (External ''ValueError'') \<and>
   quiet (raises analyze_raises_env)
     (butlast (snd (process_replay analyze_raises_env demo_self ''match.replay'' (Some ''r1'')))) \<and>
   prefix (external_calls (snd (process_replay failing_env demo_self ''match.replay'' None)))
     (external_calls (parsing_calls ''/app/data/results/match_20240101120000'' ''match.replay'')) \<and>
   snd (process_replay demo_env demo_self ''match.replay'' (Some ''r1''))
     = pipeline_calls demo_env demo_self ''match.replay'' (Some ''r1'') \<and>
   phases (snd (process_replay demo_env demo_self ''match.replay'' (Some ''r1'')))
     = pipeline_phases \<and>
   map method_of
     (external_calls (snd (process_replay demo_env demo_self ''match.replay'' (Some ''r1''))))
     = pipeline_methods \<and>
   sorted (phases (snd (process_replay analyze_raises_env demo_self ''match.replay''
                          (Some ''r1''))))"
proof -
  have r: "fst (process_replay analyze_raises_env demo_self ''match.replay'' (Some ''r1''))
             = Raised (External ''ValueError'')"
    by code_simp
  have l: "last (snd (process_replay analyze_raises_env demo_self ''match.replay'' (Some ''r1'')))
             = Analyze"
    by code_simp
  have f: "\<not> parse_truthy failing_env ''match.replay''"
    by code_simp
  have j: "join (results_dir demo_self)
             (make_result_id (now_stamp failing_env) ''match.replay'' None)
           = ''/app/data/results/match_20240101120000''"
    by code_simp
  have c: "fst (process_replay demo_env demo_self ''match.replay'' (Some ''r1'')) =
      Returned (Some (compile_results demo_env ''r1'' ''match.replay'' ''/app/data/results/r1'' 111))
        (demo_self\<lparr>visualizer_dir := ''/app/data/results/r1'', parser := Some ''match.replay'',
                   analyzer := 111\<rparr>)"
    by code_simp
  note t1 = process_replay_fixed_order
    [of analyze_raises_env demo_self "''match.replay''" "Some ''r1''"]
  note t2 = process_replay_fixed_order
    [of failing_env demo_self "''match.replay''" None, unfolded j]
  note t3 = process_replay_fixed_order
    [of demo_env demo_self "''match.replay''" "Some ''r1''"]
  from t1 r have 1: "raises_at (raises analyze_raises_env)
     (length (snd (process_replay analyze_raises_env demo_self ''match.replay'' (Some ''r1''))) - 1)
     (last (snd (process_replay analyze_raises_env demo_self ''match.replay'' (Some ''r1''))))
     = Some (External ''ValueError'')"
    by blast
  from t1 have 2: "quiet (raises analyze_raises_env)
     (butlast (snd (process_replay analyze_raises_env demo_self ''match.replay'' (Some ''r1''))))"
    by blast
  from t2 f have 3: "prefix
     (external_calls (snd (process_replay failing_env demo_self ''match.replay'' None)))
     (external_calls (parsing_calls ''/app/data/results/match_20240101120000'' ''match.replay''))"
    by blast
  from t3 c have 4: "snd (process_replay demo_env demo_self ''match.replay'' (Some ''r1''))
     = pipeline_calls demo_env demo_self ''match.replay'' (Some ''r1'')"
    by blast
  from t3 c have 5: "phases (snd (process_replay demo_env demo_self ''match.replay'' (Some ''r1'')))
     = pipeline_phases"
    by blast
  from t3 c have 6: "map method_of
     (external_calls (snd (process_replay demo_env demo_self ''match.replay'' (Some ''r1''))))
     = pipeline_methods"
    by blast
  from t1 have 7: "sorted (phases (snd (process_replay analyze_raises_env demo_self
                                          ''match.replay'' (Some ''r1''))))"
    by blast
  from r l 1 2 3 4 5 6 7 show ?thesis by blast
qed

subsection \<open>The summary of a stored result\<close>

lemma get_result_summary_no_dir:
  "\<not> path_exists files (join (results_dir self) result_id) \<Longrightarrow>
     fst (get_result_summary files self result_id) = Inr None"
  by (simp add: get_result_summary_def Let_def)

lemma get_result_summary_no_analysis:
  "\<not> path_exists files (join (join (results_dir self) result_id) ''analysis_results.json'') \<Longrightarrow>
     fst (get_result_summary files self result_id) = Inr None"
  by (simp add: get_result_summary_def Let_def path_exists_def)

lemma compile_summary_objects:
  "compile_summary result_id result_dir (JObj akvs) (JObj rkvs) =
     Inr \<lparr>sum_id = result_id,
          sum_metadata = (case map_of rkvs ''metadata'' of None \<Rightarrow> JObj [] | Some v \<Rightarrow> v),
          sum_players = (case map_of rkvs ''players'' of None \<Rightarrow> JArr [] | Some v \<Rightarrow> v),
          sum_events = (case map_of rkvs ''events'' of None \<Rightarrow> JArr [] | Some v \<Rightarrow> v),
          sum_overall_score = (case map_of akvs ''overall_score'' of None \<Rightarrow> JObj [] | Some v \<Rightarrow> v),
          sum_findings = (case map_of akvs ''findings'' of None \<Rightarrow> JArr [] | Some v \<Rightarrow> v),
          sum_recommendations = (case map_of akvs ''recommendations'' of None \<Rightarrow> JObj [] | Some v \<Rightarrow> v),
          sum_visualizations = visualizations result_dir\<rparr>"
  by (simp add: compile_summary_def)

lemma object_or_missing_cases:
  assumes "object_or_missing n"
  obtains "n = None" | kvs where "n = Some (File (Doc (JObj kvs)))"
  using assms by (cases n rule: object_or_missing.cases) auto

text \<open>
  Claim C10, as stated: \<^verbatim>\<open>get_result_summary\<close> returns \<^verbatim>\<open>None\<close> exactly when
  the result directory or one of the two files is missing, and a summary otherwise. When
  \<^verbatim>\<open>analysis_results.json\<close> is there but does not hold a JSON document,
  \<^verbatim>\<open>json.load\<close> raises: with all three in place (\<open>r2\<close>) no summary is returned,
  and with \<^verbatim>\<open>replay_data.json\<close> missing (\<open>r3\<close>) the method raises before it
  looks for that file, so it does not return \<^verbatim>\<open>None\<close>.
\<close>

theorem get_result_summary_counterexample:
  "path_exists demo_files ''/app/data/results/r2'' \<and>
   path_exists demo_files ''/app/data/results/r2/analysis_results.json'' \<and>
   path_exists demo_files ''/app/data/results/r2/replay_data.json'' \<and>
   get_result_summary demo_files demo_self ''r2'' = (Inl JSONDecodeError, []) \<and>
   \<not> path_exists demo_files ''/app/data/results/r3/replay_data.json'' \<and>
   get_result_summary demo_files demo_self ''r3'' = (Inl JSONDecodeError, [])"
  by code_simp

text \<open>
  Claim C10, amended. For every \<^verbatim>\<open>result_id\<close>: \<^verbatim>\<open>get_result_summary\<close>
  returns \<^verbatim>\<open>None\<close> only when the result directory, \<^verbatim>\<open>analysis_results.json\<close>
  or \<^verbatim>\<open>replay_data.json\<close> is missing; it does return \<^verbatim>\<open>None\<close> when the
  result directory or \<^verbatim>\<open>analysis_results.json\<close> is missing, and when
  \<^verbatim>\<open>replay_data.json\<close> is missing and \<^verbatim>\<open>analysis_results.json\<close> holds a JSON
  document; and when all three exist and both files hold JSON objects it returns a summary
  whose \<^verbatim>\<open>id\<close> is the requested \<^verbatim>\<open>result_id\<close> and whose metadata, players,
  events, overall score, findings and recommendations are taken from the two files, with
  empty-container defaults for absent keys.
\<close>

theorem get_result_summary_returns:
  fixes files :: filesystem and self :: "'a integrator" and result_id :: string
  defines "result_dir \<equiv> join (results_dir self) result_id"
  defines "analysis_path \<equiv> join result_dir ''analysis_results.json''"
  defines "replay_data_path \<equiv> join result_dir ''replay_data.json''"
  shows
    "(fst (get_result_summary files self result_id) = Inr None \<longrightarrow>
        \<not> path_exists files result_dir \<or> \<not> path_exists files analysis_path
        \<or> \<not> path_exists files replay_data_path) \<and>
     (\<not> path_exists files result_dir \<or> \<not> path_exists files analysis_path \<longrightarrow>
        fst (get_result_summary files self result_id) = Inr None) \<and>
     (\<not> path_exists files replay_data_path \<and> (\<exists>j. files analysis_path = Some (File (Doc j))) \<longrightarrow>
        fst (get_result_summary files self result_id) = Inr None) \<and>
     (path_exists files result_dir \<and> path_exists files analysis_path
        \<and> path_exists files replay_data_path
        \<and> object_or_missing (files analysis_path) \<and> object_or_missing (files replay_data_path) \<longrightarrow>
        fst (get_result_summary files self result_id) =
          Inr (Some \<lparr>sum_id = result_id,
                     sum_metadata = lookup_default (files replay_data_path) ''metadata'' (JObj []),
                     sum_players = lookup_default (files replay_data_path) ''players'' (JArr []),
                     sum_events = lookup_default (files replay_data_path) ''events'' (JArr []),
                     sum_overall_score =
                       lookup_default (files analysis_path) ''overall_score'' (JObj []),
                     sum_findings = lookup_default (files analysis_path) ''findings'' (JArr []),
                     sum_recommendations =
                       lookup_default (files analysis_path) ''recommendations'' (JObj []),
                     sum_visualizations = visualizations result_dir\<rparr>))"
  (is "?only \<and> ?missing \<and> ?replay \<and> ?summary")
proof -
  have 1: ?only
    unfolding result_dir_def analysis_path_def replay_data_path_def
    by (auto simp: get_result_summary_def Let_def path_exists_def
             split: option.splits sum.splits if_splits)
  have 2: ?missing
    unfolding result_dir_def analysis_path_def
    using get_result_summary_no_dir [of files self result_id]
      get_result_summary_no_analysis [of files self result_id] by blast
  have 3: ?replay
    unfolding result_dir_def analysis_path_def replay_data_path_def
    by (auto simp: get_result_summary_def Let_def path_exists_def)
  have 4: ?summary
  proof (intro impI, elim conjE)
    assume d: "path_exists files result_dir"
      and "path_exists files analysis_path" "path_exists files replay_data_path"
      and "object_or_missing (files analysis_path)" "object_or_missing (files replay_data_path)"
    then obtain akvs rkvs where a: "files analysis_path = Some (File (Doc (JObj akvs)))"
      and r: "files replay_data_path = Some (File (Doc (JObj rkvs)))"
      by (auto simp: path_exists_def elim!: object_or_missing_cases)
    show "fst (get_result_summary files self result_id) =
          Inr (Some \<lparr>sum_id = result_id,
                     sum_metadata = lookup_default (files replay_data_path) ''metadata'' (JObj []),
                     sum_players = lookup_default (files replay_data_path) ''players'' (JArr []),
                     sum_events = lookup_default (files replay_data_path) ''events'' (JArr []),
                     sum_overall_score =
                       lookup_default (files analysis_path) ''overall_score'' (JObj []),
                     sum_findings = lookup_default (files analysis_path) ''findings'' (JArr []),
                     sum_recommendations =
                       lookup_default (files analysis_path) ''recommendations'' (JObj []),
                     sum_visualizations = visualizations result_dir\<rparr>)"
      using d a r
      unfolding result_dir_def analysis_path_def replay_data_path_def
      by (simp add: get_result_summary_def Let_def compile_summary_objects lookup_default_def)
  qed
  from 1 2 3 4 show ?thesis by blast
qed

theorem get_result_summary_returns_witness:
  "fst (get_result_summary demo_files demo_self ''r4'') = Inr None \<and>
   \<not> path_exists demo_files ''/app/data/results/r4'' \<and>
   fst (get_result_summary demo_files demo_self ''r5'') = Inr None \<and>
   fst (get_result_summary demo_files demo_self ''r1'') =
     Inr (Some \<lparr>sum_id = ''r1'',
                sum_metadata = JObj [(''map_name'', JStr ''DFH Stadium'')],
                sum_players = JArr [JStr ''p1'', JStr ''p2''],
                sum_events = JArr [],
                sum_overall_score = JObj [(''overall_score'', JNum 72)],
                sum_findings = JArr [JStr ''good rotation''],
                sum_recommendations = JObj [],
                sum_visualizations = visualizations ''/app/data/results/r1''\<rparr>)"
proof -
  note t4 = get_result_summary_returns
    [where files = demo_files and self = demo_self and result_id = "''r4''"]
  note t5 = get_result_summary_returns
    [where files = demo_files and self = demo_self and result_id = "''r5''"]
  note t1 = get_result_summary_returns
    [where files = demo_files and self = demo_self and result_id = "''r1''"]
  have d4: "\<not> path_exists demo_files (join (results_dir demo_self) ''r4'')"
    by code_simp
  have j4: "join (results_dir demo_self) ''r4'' = ''/app/data/results/r4''"
    by code_simp
  from t4 d4 have 1: "fst (get_result_summary demo_files demo_self ''r4'') = Inr None"
    by blast
  from t4 1 have "\<not> path_exists demo_files (join (results_dir demo_self) ''r4'')
      \<or> \<not> path_exists demo_files
            (join (join (results_dir demo_self) ''r4'') ''analysis_results.json'')
      \<or> \<not> path_exists demo_files
            (join (join (results_dir demo_self) ''r4'') ''replay_data.json'')"
    by blast
  have d5: "\<not> path_exists demo_files
               (join (join (results_dir demo_self) ''r5'') ''replay_data.json'')"
    by code_simp
  have a5: "demo_files (join (join (results_dir demo_self) ''r5'') ''analysis_results.json'')
              = Some (File (Doc (JObj [])))"
    by code_simp
  from t5 d5 a5 have 2: "fst (get_result_summary demo_files demo_self ''r5'') = Inr None"
    by blast
  have j1: "join (results_dir demo_self) ''r1'' = ''/app/data/results/r1''"
    by code_simp
  have e1: "path_exists demo_files ''/app/data/results/r1''"
    "path_exists demo_files (join ''/app/data/results/r1'' ''analysis_results.json'')"
    "path_exists demo_files (join ''/app/data/results/r1'' ''replay_data.json'')"
    "object_or_missing (demo_files (join ''/app/data/results/r1'' ''analysis_results.json''))"
    "object_or_missing (demo_files (join ''/app/data/results/r1'' ''replay_data.json''))"
    by code_simp+
  have v1: "lookup_default (demo_files (join ''/app/data/results/r1'' ''replay_data.json''))
              ''metadata'' (JObj []) = JObj [(''map_name'', JStr ''DFH Stadium'')]"
    "lookup_default (demo_files (join ''/app/data/results/r1'' ''replay_data.json''))
              ''players'' (JArr []) = JArr [JStr ''p1'', JStr ''p2'']"
    "lookup_default (demo_files (join ''/app/data/results/r1'' ''replay_data.json''))
              ''events'' (JArr []) = JArr []"
    "lookup_default (demo_files (join ''/app/data/results/r1'' ''analysis_results.json''))
              ''overall_score'' (JObj []) = JObj [(''overall_score'', JNum 72)]"
    "lookup_default (demo_files (join ''/app/data/results/r1'' ''analysis_results.json''))
              ''findings'' (JArr []) = JArr [JStr ''good rotation'']"
    "lookup_default (demo_files (join ''/app/data/results/r1'' ''analysis_results.json''))
              ''recommendations'' (JObj []) = JObj []"
    by code_simp+
  from t1 [unfolded j1] e1 have 3: "fst (get_result_summary demo_files demo_self ''r1'') =
     Inr (Some \<lparr>sum_id = ''r1'',
                sum_metadata = JObj [(''map_name'', JStr ''DFH Stadium'')],
                sum_players = JArr [JStr ''p1'', JStr ''p2''],
                sum_events = JArr [],
                sum_overall_score = JObj [(''overall_score'', JNum 72)],
                sum_findings = JArr [JStr ''good rotation''],
                sum_recommendations = JObj [],
                sum_visualizations = visualizations ''/app/data/results/r1''\<rparr>)"
    unfolding v1 by blast
  from 1 d4 [unfolded j4] 2 3 show ?thesis by blast
qed

section \<open>The claim about the wrapper scripts\<close>

lemma written_replay_wrapper:
  "written (fst (create_wrapper_scripts system)) ''analisar_replay.py'' = Some replay_wrapper"
  by (simp add: create_wrapper_scripts_def print_header_def)

lemma written_video_wrapper:
  "written (fst (create_wrapper_scripts system)) ''analisar_video.py'' = Some video_wrapper"
  by (simp add: create_wrapper_scripts_def print_header_def)

lemma written_interface_wrapper:
  "written (fst (create_wrapper_scripts system)) ''iniciar_interface.py'' = Some interface_wrapper"
  by (simp add: create_wrapper_scripts_def print_header_def)

lemma video_wrapper_differs: "video_wrapper \<noteq> analisar_video_py"
  by (simp add: analisar_video_py_def video_wrapper_def unlines_def)

lemma replay_file_text: "analisar_replay_py = replay_wrapper @ [CHR 0x0A]"
  by (simp add: analisar_replay_py_def replay_wrapper_def unlines_def)

lemma interface_file_text: "iniciar_interface_py = interface_wrapper @ [CHR 0x0A]"
  by (simp add: iniciar_interface_py_def interface_wrapper_def unlines_def)

text \<open>
  Claim C8, as stated: the texts \<^verbatim>\<open>create_wrapper_scripts\<close> writes for
  \<^verbatim>\<open>analisar_replay.py\<close>, \<^verbatim>\<open>analisar_video.py\<close> and
  \<^verbatim>\<open>iniciar_interface.py\<close> are character for character the files of the repository.
  On Linux none of the three texts is the repository's file: the video script is a different
  program, and the other two files have one more character than the text written.
\<close>

theorem create_wrapper_scripts_counterexample:
  "written (fst (create_wrapper_scripts ''Linux'')) ''analisar_video.py''
     \<noteq> repository_file ''analisar_video.py'' \<and>
   written (fst (create_wrapper_scripts ''Linux'')) ''analisar_replay.py''
     \<noteq> repository_file ''analisar_replay.py'' \<and>
   written (fst (create_wrapper_scripts ''Linux'')) ''iniciar_interface.py''
     \<noteq> repository_file ''iniciar_interface.py''"
  using video_wrapper_differs
  by (simp add: written_video_wrapper written_replay_wrapper written_interface_wrapper
        repository_file_def replay_file_text interface_file_text)

text \<open>
  Claim C8, amended. On every platform, the text written for \<^verbatim>\<open>analisar_replay.py\<close>
  and the text written for \<^verbatim>\<open>iniciar_interface.py\<close> are character for character the
  repository's files up to one final newline character, which only the repository's files
  have.
\<close>

theorem create_wrapper_scripts_texts:
  "(\<exists>w. written (fst (create_wrapper_scripts system)) ''analisar_replay.py'' = Some w \<and>
        repository_file ''analisar_replay.py'' = Some (w @ [CHR 0x0A])) \<and>
   (\<exists>w. written (fst (create_wrapper_scripts system)) ''iniciar_interface.py'' = Some w \<and>
        repository_file ''iniciar_interface.py'' = Some (w @ [CHR 0x0A]))"
proof -
  have 1: "repository_file ''analisar_replay.py'' = Some (replay_wrapper @ [CHR 0x0A])"
    by (simp add: repository_file_def replay_file_text)
  have 2: "repository_file ''iniciar_interface.py'' = Some (interface_wrapper @ [CHR 0x0A])"
    by (simp add: repository_file_def interface_file_text)
  from written_replay_wrapper [of system] written_interface_wrapper [of system] 1 2
  show ?thesis by blast
qed

section \<open>Properties of the decoder and the normaliser\<close>

subsection \<open>The frame loop of the decoder\<close>

lemma decode_frames_eq:
  "decode_frames roster rs (kept, dropped) =
     (kept @ filter (\<lambda>r. known_entity roster (tag r)) rs,
      dropped + length (filter (\<lambda>r. \<not> known_entity roster (tag r)) rs))"
  by (induction rs arbitrary: kept dropped) auto

lemma decode_events_eq:
  "decode_events roster es (kept, dropped) =
     (kept @ filter (\<lambda>e. actor e \<in> set (map player_id roster)) es,
      dropped + length (filter (\<lambda>e. actor e \<notin> set (map player_id roster)) es))"
  by (induction es arbitrary: kept dropped) auto

lemma decode_error_frames:
  "decode sch raw = Inl err \<longleftrightarrow> decode sch (raw\<lparr>raw_frames := recs\<rparr>) = Inl err"
  by (simp add: decode_def Let_def split: prod.splits)

lemma decode_frames_result:
  assumes "decode sch raw = Inr d"
  shows "dec_frames d = filter (\<lambda>r. known_entity (raw_roster raw) (tag r)) (raw_frames raw)"
    and "dropped_frames d
           = length (filter (\<lambda>r. \<not> known_entity (raw_roster raw) (tag r)) (raw_frames raw))"
    and "dec_roster d = raw_roster raw"
  using assms by (auto simp: decode_def Let_def decode_frames_eq split: if_splits prod.splits)

lemma samples_of_known:
  assumes "decode sch raw = Inr d" and "known_entity (raw_roster raw) e"
  shows "samples_of d e = map sample (filter (\<lambda>r. tag r = e) (raw_frames raw))"
proof -
  have "filter (\<lambda>r. tag r = e) (filter (\<lambda>r. known_entity (raw_roster raw) (tag r)) (raw_frames raw))
        = filter (\<lambda>r. tag r = e) (raw_frames raw)"
    using assms(2) by (auto intro: filter_cong)
  then show ?thesis by (simp add: samples_of_def decode_frames_result(1) [OF assms(1)])
qed

subsection \<open>Resampling a segment\<close>

lemma timestamp_interpolate [simp]: "timestamp (interpolate a b t) = t"
  by (simp add: interpolate_def Let_def)

lemma timestamp_sample_at [simp]: "timestamp (sample_at a rest t) = t"
  by (induction rest arbitrary: a) auto

lemma resample_times:
  "map timestamp (resample dt (a # rest)) =
     map (\<lambda>k. timestamp a + of_nat k * dt)
       [0..<Suc (nat \<lfloor>(timestamp (last (a # rest)) - timestamp a) / dt\<rfloor>)]"
  by (simp add: Let_def comp_def del: upt_Suc)

lemma resample_sorted:
  assumes "0 < dt"
  shows "sorted_wrt (<) (map timestamp (resample dt seg))"
proof (cases seg)
  case Nil
  then show ?thesis by simp
next
  case (Cons a rest)
  have "sorted_wrt (\<lambda>j k. timestamp a + of_nat j * dt < timestamp a + of_nat k * dt) [0..<n]"
    for n :: nat
    by (rule sorted_wrt_mono_rel [OF _ sorted_wrt_upt]) (use assms in simp)
  then show ?thesis
    unfolding Cons resample_times by (simp only: sorted_wrt_map)
qed

lemma resample_bounds:
  assumes dt: "0 < dt" and srt: "sorted (map timestamp seg)" and ne: "seg \<noteq> []"
    and s: "s \<in> set (resample dt seg)"
  shows "timestamp (hd seg) \<le> timestamp s \<and> timestamp s \<le> timestamp (last seg)"
proof -
  from ne obtain a rest where seg: "seg = a # rest" by (cases seg) auto
  define q where "q = (timestamp (last (a # rest)) - timestamp a) / dt"
  have "timestamp a \<le> timestamp (last (a # rest))"
  proof (cases rest)
    case Nil
    then show ?thesis by simp
  next
    case (Cons b bs)
    then have "last (a # rest) \<in> set rest" by simp
    with srt seg show ?thesis by auto
  qed
  then have q0: "0 \<le> q" using dt by (simp add: q_def)
  from s have "timestamp s \<in> set (map timestamp (resample dt (a # rest)))"
    unfolding seg by (simp del: resample.simps)
  then have "timestamp s \<in> (\<lambda>k. timestamp a + of_nat k * dt) ` {0..<Suc (nat \<lfloor>q\<rfloor>)}"
    unfolding resample_times q_def [symmetric] by (simp only: set_map set_upt)
  then obtain k where "k < Suc (nat \<lfloor>q\<rfloor>)" and ts: "timestamp s = timestamp a + of_nat k * dt"
    by auto
  then have k: "k \<le> nat \<lfloor>q\<rfloor>" by simp
  have "of_nat k \<le> (of_int \<lfloor>q\<rfloor> :: rat)"
  proof -
    from k q0 have "int k \<le> \<lfloor>q\<rfloor>" by linarith
    then have "(of_int (int k) :: rat) \<le> of_int \<lfloor>q\<rfloor>" by (simp only: of_int_le_iff)
    then show ?thesis by simp
  qed
  also have "\<dots> \<le> q" by (rule of_int_floor_le)
  finally have "of_nat k * dt \<le> q * dt" using dt by simp
  also have "q * dt = timestamp (last (a # rest)) - timestamp a"
    using dt by (simp add: q_def)
  finally have up: "timestamp s \<le> timestamp (last (a # rest))" using ts by simp
  have "0 \<le> of_nat k * dt" using dt by simp
  then have lo: "timestamp a \<le> timestamp s" using ts by simp
  from lo up show ?thesis by (simp add: seg)
qed

lemma resample_Nil_iff [simp]: "resample dt seg = [] \<longleftrightarrow> seg = []"
  by (cases seg) (simp_all add: Let_def)

subsection \<open>Splitting at the gaps\<close>

lemma segments_props:
  "0 \<le> gap \<Longrightarrow> sorted (map timestamp xs) \<Longrightarrow>
     concat (segments gap xs) = xs \<and>
     [] \<notin> set (segments gap xs) \<and>
     apart (segments gap xs) \<and>
     (xs \<noteq> [] \<longrightarrow> segments gap xs \<noteq> [] \<and> hd (hd (segments gap xs)) = hd xs)"
proof (induction gap xs rule: segments.induct)
  case (1 gap)
  then show ?case by simp
next
  case (2 gap s)
  then show ?case by simp
next
  case (3 gap s t rest)
  from "3.prems" have srt: "sorted (map timestamp (t # rest))" and gap: "0 \<le> gap" by simp_all
  show ?case
  proof (cases "gap < timestamp t - timestamp s")
    case True
    note ih = "3.IH"(1) [OF True gap srt]
    from ih obtain seg segs where sg: "segments gap (t # rest) = seg # segs"
      by (cases "segments gap (t # rest)") auto
    from ih sg have seg: "seg \<noteq> []" "hd seg = t" "concat (seg # segs) = t # rest"
      "[] \<notin> set segs" "apart (seg # segs)"
      by auto
    from True gap have "timestamp s < timestamp t" by simp
    with True sg seg show ?thesis by simp
  next
    case False
    note ih = "3.IH"(2) [OF False gap srt]
    from ih obtain seg segs where sg: "segments gap (t # rest) = seg # segs"
      by (cases "segments gap (t # rest)") auto
    from ih sg have seg: "seg \<noteq> []" "hd seg = t" "concat (seg # segs) = t # rest"
      "[] \<notin> set segs" "apart (seg # segs)"
      by auto
    have "apart ((s # seg) # segs)"
      using seg(1,5) by (cases segs) simp_all
    with False sg seg show ?thesis by simp
  qed
qed

lemma segments_sorted:
  assumes "0 \<le> gap" and "sorted (map timestamp xs)" and "seg \<in> set (segments gap xs)"
  shows "sorted (map timestamp seg)"
proof -
  from segments_props [OF assms(1,2)] have c: "concat (segments gap xs) = xs" by simp
  from assms(3) obtain pre post where "segments gap xs = pre @ seg # post"
    by (auto simp: in_set_conv_decomp)
  with c have "xs = concat pre @ seg @ concat post" by simp
  with assms(2) show ?thesis by (simp add: sorted_append)
qed

subsection \<open>The series of an entity\<close>

lemma resampled_segments_sorted:
  assumes dt: "0 < dt"
  shows "apart segs \<Longrightarrow> \<forall>seg \<in> set segs. seg \<noteq> [] \<and> sorted (map timestamp seg) \<Longrightarrow>
     sorted_wrt (<) (map timestamp (concat (map (resample dt) segs))) \<and>
     (\<forall>s \<in> set (concat (map (resample dt) segs)). timestamp (hd (hd segs)) \<le> timestamp s)"
proof (induction segs rule: apart.induct)
  case 1
  then show ?case by simp
next
  case (2 a)
  then show ?case
    using resample_sorted [OF dt, of a] resample_bounds [OF dt, of a] by auto
next
  case (3 a b segs)
  from "3.prems" have ab: "timestamp (last a) < timestamp (hd b)" and ap: "apart (b # segs)"
    and a: "a \<noteq> []" "sorted (map timestamp a)"
    and rest: "\<forall>seg \<in> set (b # segs). seg \<noteq> [] \<and> sorted (map timestamp seg)"
    by auto
  from "3.IH" [OF ap rest]
  have srt: "sorted_wrt (<) (map timestamp (concat (map (resample dt) (b # segs))))"
    and low: "\<forall>s \<in> set (concat (map (resample dt) (b # segs))). timestamp (hd b) \<le> timestamp s"
    by auto
  have ba: "timestamp (hd a) \<le> timestamp x \<and> timestamp x \<le> timestamp (last a)"
    if "x \<in> set (resample dt a)" for x
    using resample_bounds [OF dt a(2,1) that] .
  have cross: "timestamp x < timestamp y"
    if "x \<in> set (resample dt a)" "y \<in> set (concat (map (resample dt) (b # segs)))" for x y
  proof -
    from ba [OF that(1)] have "timestamp x \<le> timestamp (last a)" by simp
    also note ab
    also from low that(2) have "timestamp (hd b) \<le> timestamp y" by blast
    finally show ?thesis .
  qed
  have haa: "timestamp (hd a) \<le> timestamp (last a)"
    using a by (cases a) (auto simp: last_in_set)
  have split: "map timestamp (concat (map (resample dt) (a # b # segs))) =
      map timestamp (resample dt a) @ map timestamp (concat (map (resample dt) (b # segs)))"
    by (simp del: resample.simps)
  have cross': "\<forall>u \<in> set (map timestamp (resample dt a)).
      \<forall>v \<in> set (map timestamp (concat (map (resample dt) (b # segs)))). u < v"
  proof (intro ballI)
    fix u v
    assume "u \<in> set (map timestamp (resample dt a))"
      and "v \<in> set (map timestamp (concat (map (resample dt) (b # segs))))"
    then obtain x y where "x \<in> set (resample dt a)" "u = timestamp x"
      "y \<in> set (concat (map (resample dt) (b # segs)))" "v = timestamp y"
      by (auto simp only: set_map)
    with cross show "u < v" by simp
  qed
  have 1: "sorted_wrt (<) (map timestamp (concat (map (resample dt) (a # b # segs))))"
    unfolding split sorted_wrt_append
    using resample_sorted [OF dt, of a] srt cross' by blast
  have 2: "timestamp (hd a) \<le> timestamp s"
    if "s \<in> set (concat (map (resample dt) (a # b # segs)))" for s
  proof (cases "s \<in> set (resample dt a)")
    case True
    then show ?thesis using ba by blast
  next
    case False
    with that have "s \<in> set (concat (map (resample dt) (b # segs)))" by simp
    with low have "timestamp (hd b) \<le> timestamp s" by blast
    with ab haa show ?thesis by linarith
  qed
  from 1 2 show ?case by simp
qed

lemma tick_pos: "0 < tick_rate_hz cfg \<Longrightarrow> 0 < tick cfg"
  by (simp add: tick_def)

lemma normalize_entity_sorted:
  assumes "0 < tick_rate_hz cfg"
  shows "sorted_wrt (<) (series_times (normalize_entity cfg samples))"
proof (cases "length samples < 2")
  case True
  then show ?thesis by (simp add: normalize_entity_def series_times_def)
next
  case False
  define gap where "gap = of_nat (max_gap_ticks cfg) * tick cfg"
  define xs where "xs = sort_key timestamp samples"
  have dt: "0 < tick cfg" by (rule tick_pos [OF assms])
  then have gap: "0 \<le> gap" by (simp add: gap_def)
  have srt: "sorted (map timestamp xs)" by (simp add: xs_def)
  from segments_props [OF gap srt] have ap: "apart (segments gap xs)"
    and ne: "[] \<notin> set (segments gap xs)" by simp_all
  have all: "\<forall>seg \<in> set (segments gap xs). seg \<noteq> [] \<and> sorted (map timestamp seg)"
    using ne segments_sorted [OF gap srt] by auto
  from resampled_segments_sorted [OF dt ap all] False show ?thesis
    by (simp add: normalize_entity_def series_times_def gap_def xs_def)
qed

subsection \<open>Series with enough samples\<close>

lemma tick_nonneg: "0 \<le> tick cfg"
  by (simp add: tick_def)

lemma normalize_entity_few: "length samples < 2 \<Longrightarrow> normalize_entity cfg samples = []"
  by (simp add: normalize_entity_def)

lemma normalize_entity_nonempty:
  assumes "2 \<le> length samples"
  shows "concat (normalize_entity cfg samples) \<noteq> []"
proof -
  define gap where "gap = of_nat (max_gap_ticks cfg) * tick cfg"
  define xs where "xs = sort_key timestamp samples"
  have gap: "0 \<le> gap" using tick_nonneg [of cfg] by (simp add: gap_def)
  have srt: "sorted (map timestamp xs)" by (simp add: xs_def)
  have "length xs = length samples" by (simp add: xs_def)
  with assms have ne: "xs \<noteq> []" by auto
  from segments_props [OF gap srt] ne obtain seg segs
    where sg: "segments gap xs = seg # segs" and "[] \<notin> set (segments gap xs)"
    by (cases "segments gap xs") auto
  then have "seg \<noteq> []" by auto
  then have "resample (tick cfg) seg \<noteq> []" by simp
  with assms sg show ?thesis
    by (simp add: normalize_entity_def gap_def [symmetric] xs_def [symmetric]
             del: resample.simps)
qed

subsection \<open>Scores\<close>

lemma scale_range:
  assumes "cat_lo c < cat_hi c"
  shows "0 \<le> scale c x \<and> scale c x \<le> 100"
proof -
  define y where "y = max (cat_lo c) (min (cat_hi c) x)"
  have y: "cat_lo c \<le> y" "y \<le> cat_hi c" using assms by (auto simp: y_def)
  have d: "0 < cat_hi c - cat_lo c" using assms by simp
  define q where "q = (y - cat_lo c) / (cat_hi c - cat_lo c)"
  have "0 \<le> q" using y d by (simp add: q_def)
  moreover have "q \<le> 1" using y d by (simp add: q_def)
  moreover have "scale c x = 100 * q" by (simp add: scale_def y_def q_def)
  ultimately show ?thesis by simp
qed

lemma applicable_filter:
  "applicable (map f (filter (\<lambda>x. f x \<noteq> Not_applicable) es)) = applicable (map f es)"
proof (induction es)
  case Nil
  show ?case by simp
next
  case (Cons a es)
  then show ?case by (cases "f a") simp_all
qed

lemma applicable_removeAll:
  assumes "f e = Not_applicable"
  shows "applicable (map f (removeAll e es)) = applicable (map f es)"
proof (induction es)
  case Nil
  show ?case by simp
next
  case (Cons a es)
  then show ?case using assms by (cases "f a") auto
qed

lemma mean_score_removeAll:
  "f e = Not_applicable \<Longrightarrow> mean_score (map f (removeAll e es)) = mean_score (map f es)"
  by (simp add: mean_score_def applicable_removeAll)

lemma sum_list_bounds:
  fixes xs :: "rat list"
  assumes "\<forall>x \<in> set xs. 0 \<le> x \<and> x \<le> 100"
  shows "0 \<le> sum_list xs \<and> sum_list xs \<le> 100 * of_nat (length xs)"
  using assms by (induction xs) (auto simp: algebra_simps)

lemma mean_score_range:
  assumes "ss \<noteq> []" and "\<forall>s \<in> set ss. \<exists>x. s = Score x \<and> 0 \<le> x \<and> x \<le> 100"
  shows "\<exists>y. mean_score ss = Score y \<and> 0 \<le> y \<and> y \<le> 100"
proof -
  have ap: "length (applicable ss) = length ss \<and> (\<forall>x \<in> set (applicable ss). 0 \<le> x \<and> x \<le> 100)"
    using assms(2) by (induction ss rule: applicable.induct) auto
  with assms(1) obtain x xs where xs: "applicable ss = x # xs"
    by (cases "applicable ss") auto
  from sum_list_bounds [of "x # xs"] ap xs
  have b: "0 \<le> sum_list (x # xs)" "sum_list (x # xs) \<le> 100 * of_nat (length (x # xs))"
    by auto
  have n: "(0::rat) < of_nat (length (x # xs))" by simp
  have "0 \<le> sum_list (x # xs) / of_nat (length (x # xs))"
    using b(1) n by (simp only: zero_le_divide_iff) simp
  moreover have "sum_list (x # xs) / of_nat (length (x # xs)) \<le> 100"
    using b(2) n by (simp only: pos_divide_le_eq)
  ultimately show ?thesis by (simp add: mean_score_def xs del: sum_list.Cons)
qed

lemma weighted_bounds:
  assumes "\<forall>(w, s) \<in> set ps. 0 < w \<and> (\<exists>x. s = Score x \<and> 0 \<le> x \<and> x \<le> 100)"
  shows "0 \<le> sum_list (map (\<lambda>(w, x). w * x) (weighted ps)) \<and>
         sum_list (map (\<lambda>(w, x). w * x) (weighted ps)) \<le> 100 * sum_list (map fst (weighted ps)) \<and>
         (ps \<noteq> [] \<longrightarrow> 0 < sum_list (map fst (weighted ps))) \<and>
         0 \<le> sum_list (map fst (weighted ps))"
  using assms
proof (induction ps rule: weighted.induct)
  case 1
  show ?case by simp
next
  case (2 w ps)
  then show ?case by simp
next
  case (3 w x ps)
  from "3.prems" have w: "0 < w" and x: "0 \<le> x" "x \<le> 100"
    and rest: "\<forall>(w, s) \<in> set ps. 0 < w \<and> (\<exists>x. s = Score x \<and> 0 \<le> x \<and> x \<le> 100)"
    by auto
  note ih = "3.IH" [OF rest]
  define S where "S = sum_list (map (\<lambda>(w, x). w * x) (weighted ps))"
  define T where "T = sum_list (map fst (weighted ps))"
  from ih have S: "0 \<le> S" "S \<le> 100 * T" and T: "0 \<le> T" by (simp_all add: S_def T_def)
  have 1: "0 \<le> w * x" using w x by simp
  have 2: "w * x \<le> 100 * w" using w x by simp
  have eq1: "sum_list (map (\<lambda>(w, x). w * x) (weighted ((w, Score x) # ps))) = w * x + S"
    by (simp add: S_def)
  have eq2: "sum_list (map fst (weighted ((w, Score x) # ps))) = w + T"
    by (simp add: T_def)
  have "0 \<le> w * x + S" using 1 S by linarith
  moreover have "w * x + S \<le> 100 * (w + T)" using 2 S by (simp add: distrib_left)
  moreover have "0 < w + T" using w T by linarith
  ultimately show ?case unfolding eq1 eq2 by simp
qed

lemma overall_score_range:
  assumes "ps \<noteq> []"
    and "\<forall>(w, s) \<in> set ps. 0 < w \<and> (\<exists>x. s = Score x \<and> 0 \<le> x \<and> x \<le> 100)"
  shows "\<exists>y. overall_score ps = Score y \<and> 0 \<le> y \<and> y \<le> 100"
proof -
  define total where "total = sum_list (map fst (weighted ps))"
  define wx where "wx = sum_list (map (\<lambda>(w, x). w * x) (weighted ps))"
  from weighted_bounds [OF assms(2)] assms(1)
  have b: "0 \<le> wx" "wx \<le> 100 * total" "0 < total"
    by (simp_all add: total_def wx_def)
  have "0 \<le> wx / total" using b by simp
  moreover have "wx / total \<le> 100" using b by (simp add: pos_divide_le_eq)
  moreover have "overall_score ps = Score (wx / total)"
    using b(3) by (simp add: overall_score_def Let_def total_def [symmetric] wx_def [symmetric])
  ultimately show ?thesis by blast
qed

lemma decode_result:
  assumes "decode sch raw = Inr d"
  shows "dec_roster d = raw_roster raw"
    and "dec_frames d = filter (\<lambda>r. known_entity (raw_roster raw) (tag r)) (raw_frames raw)"
    and "dec_events d = filter (\<lambda>e. actor e \<in> set (map player_id (raw_roster raw))) (raw_events raw)"
    and "distinct (map player_id (raw_roster raw))"
  using assms
  by (auto simp: decode_def Let_def decode_frames_eq decode_events_eq split: if_splits prod.splits)

subsection \<open>Scores with and without data\<close>

lemma set_applicable: "set (applicable ss) = {x. Score x \<in> set ss}"
  by (induction ss rule: applicable.induct) auto

lemma applicable_none: "\<forall>s \<in> set ss. s = Not_applicable \<Longrightarrow> applicable ss = []"
  by (induction ss rule: applicable.induct) auto

lemma weighted_none: "\<forall>p \<in> set ps. snd p = Not_applicable \<Longrightarrow> weighted ps = []"
  by (induction ps rule: weighted.induct) auto

lemma mean_score_some:
  assumes "\<exists>s \<in> set ss. s \<noteq> Not_applicable"
    and "\<forall>x. Score x \<in> set ss \<longrightarrow> 0 \<le> x \<and> x \<le> 100"
  shows "\<exists>y. mean_score ss = Score y \<and> 0 \<le> y \<and> y \<le> 100"
proof -
  from assms(1) obtain x0 where "Score x0 \<in> set ss"
    by (metis score.exhaust)
  then have "applicable ss \<noteq> []" using set_applicable [of ss] by auto
  then obtain x xs where xs: "applicable ss = x # xs" by (cases "applicable ss") auto
  have rng: "\<forall>u \<in> set (x # xs). 0 \<le> u \<and> u \<le> 100"
    using assms(2) set_applicable [of ss] xs by auto
  from sum_list_bounds [OF rng]
  have b: "0 \<le> sum_list (x # xs)" "sum_list (x # xs) \<le> 100 * of_nat (length (x # xs))"
    by auto
  have n: "(0::rat) < of_nat (length (x # xs))" by simp
  have "0 \<le> sum_list (x # xs) / of_nat (length (x # xs))"
    using b(1) n by (simp only: zero_le_divide_iff) simp
  moreover have "sum_list (x # xs) / of_nat (length (x # xs)) \<le> 100"
    using b(2) n by (simp only: pos_divide_le_eq)
  ultimately show ?thesis by (simp add: mean_score_def xs del: sum_list.Cons)
qed

lemma mean_score_quotient:
  "mean_score ss = Score y \<Longrightarrow>
     applicable ss \<noteq> [] \<and> y = sum_list (applicable ss) / of_nat (length (applicable ss))"
  by (auto simp: mean_score_def split: list.splits)

lemma overall_score_quotient:
  "overall_score ps = Score y \<Longrightarrow>
     sum_list (map fst (weighted ps)) \<noteq> 0 \<and>
     y = sum_list (map (\<lambda>(w, x). w * x) (weighted ps)) / sum_list (map fst (weighted ps))"
  by (auto simp: overall_score_def Let_def split: if_splits)

lemma overall_no_data:
  assumes "\<forall>x \<in> set entities. series x = []"
  shows "overall (analyze_series policy entities series events) = Not_applicable"
    and "res_score (analyze_category entities series events c) = Not_applicable"
proof -
  have sub: "sub_score c x series events = Not_applicable" if "x \<in> set entities" for c x
    using assms that by (simp add: sub_score_def)
  show cat: "res_score (analyze_category entities series events c) = Not_applicable" for c
    using sub by (simp add: analyze_category_def mean_score_def applicable_none)
  have "weighted (zip (map cat_weight policy)
                   (map res_score (map (analyze_category entities series events) policy))) = []"
    by (rule weighted_none) (auto simp: cat set_zip)
  then show "overall (analyze_series policy entities series events) = Not_applicable"
    by (simp add: analyze_series_def Let_def overall_score_def)
qed

lemma overall_some_data:
  assumes pol: "valid_policy policy" and ex: "\<exists>x \<in> set entities. series x \<noteq> []"
  shows "\<exists>y. overall (analyze_series policy entities series events) = Score y \<and> 0 \<le> y \<and> y \<le> 100"
proof -
  have cat: "\<exists>y. res_score (analyze_category entities series events c) = Score y \<and> 0 \<le> y \<and> y \<le> 100"
    if "c \<in> set policy" for c
  proof -
    from pol that have lo: "cat_lo c < cat_hi c" by (auto simp: valid_policy_def list_all_iff)
    from ex obtain x where x: "x \<in> set entities" "series x \<noteq> []" by blast
    have 1: "\<exists>s \<in> set (map (\<lambda>e. sub_score c e series events) entities). s \<noteq> Not_applicable"
      using x by (auto simp: sub_score_def)
    have 2: "\<forall>v. Score v \<in> set (map (\<lambda>e. sub_score c e series events) entities)
               \<longrightarrow> 0 \<le> v \<and> v \<le> 100"
      using scale_range [OF lo] by (auto simp: sub_score_def split: if_splits)
    from mean_score_some [OF 1 2] show ?thesis by (simp add: analyze_category_def)
  qed
  define results where "results = map (analyze_category entities series events) policy"
  have z: "zip (map cat_weight policy) (map res_score results)
          = map (\<lambda>c. (cat_weight c, res_score (analyze_category entities series events c))) policy"
    by (simp add: results_def zip_map_map zip_same_conv_map comp_def)
  have w: "0 < cat_weight c" if "c \<in> set policy" for c
    using pol that by (auto simp: valid_policy_def list_all_iff)
  have pairs: "\<forall>(w, s) \<in> set (zip (map cat_weight policy) (map res_score results)).
                 0 < w \<and> (\<exists>x. s = Score x \<and> 0 \<le> x \<and> x \<le> 100)"
    unfolding z using cat w by auto
  have ne: "zip (map cat_weight policy) (map res_score results) \<noteq> []"
    using pol by (cases policy) (auto simp: valid_policy_def results_def)
  from overall_score_range [OF ne pairs] show ?thesis
    by (simp add: analyze_series_def Let_def results_def)
qed

section \<open>The claims about the decoder, the normaliser and the analysis engine\<close>

text \<open>
  The theorems of this section are about the stages as the specification describes them
  (sections 4.1 to 4.3); the modules that implement them are not among the sources.
\<close>

subsection \<open>Unknown entity tags\<close>

text \<open>
  Claim C6. For every raw input whose frame section contains records with unknown entity tags,
  the decoder skips those records, counts exactly the skipped records, and still succeeds
  with everything the known entities have. Compared with the same capture without the
  unknown records: if that one decodes to \<open>d\<close> (with a count of zero), the capture with them
  decodes to \<open>d\<close> with the count set to the number of unknown records, and every known
  entity keeps all its samples, in order; and the capture with them fails only if the one
  without them fails, with the same error. Unknown tags are never fatal.
\<close>

theorem decode_skips_unknown_tags:
  "(case decode sch (raw\<lparr>raw_frames :=
            filter (\<lambda>r. known_entity (raw_roster raw) (tag r)) (raw_frames raw)\<rparr>) of
      Inl err \<Rightarrow> decode sch raw = Inl err
    | Inr d \<Rightarrow>
        decode sch raw =
          Inr (d\<lparr>dropped_frames :=
                   length (filter (\<lambda>r. \<not> known_entity (raw_roster raw) (tag r))
                             (raw_frames raw))\<rparr>) \<and>
        dropped_frames d = 0 \<and>
        (\<forall>e. known_entity (raw_roster raw) e \<longrightarrow>
           samples_of d e = map sample (filter (\<lambda>r. tag r = e) (raw_frames raw))))"
proof (cases "decode sch (raw\<lparr>raw_frames :=
            filter (\<lambda>r. known_entity (raw_roster raw) (tag r)) (raw_frames raw)\<rparr>)")
  case (Inl err)
  then have "decode sch raw = Inl err"
    using decode_error_frames
      [of sch raw err "filter (\<lambda>r. known_entity (raw_roster raw) (tag r)) (raw_frames raw)"]
    by simp
  with Inl show ?thesis by simp
next
  case (Inr d)
  let ?known = "\<lambda>r. known_entity (raw_roster raw) (tag r)"
  from Inr have ok: "\<not> (raw_magic raw \<noteq> magic sch \<or> raw_version raw < min_version sch
         \<or> max_version sch < raw_version raw)"
    "\<not> length (raw_buffer raw) < raw_metadata_length raw"
    "distinct (map player_id (raw_roster raw))"
    by (auto simp: decode_def split: if_splits)
  from Inr ok have d: "d = \<lparr>dec_metadata =
                   parse_metadata sch (take (raw_metadata_length raw) (raw_buffer raw)),
                 dec_roster = raw_roster raw,
                 dec_frames = filter ?known (raw_frames raw),
                 dec_events = fst (decode_events (raw_roster raw) (raw_events raw) ([], 0)),
                 dropped_frames = 0,
                 dropped_events = snd (decode_events (raw_roster raw) (raw_events raw) ([], 0))\<rparr>"
    by (simp add: decode_def Let_def decode_frames_eq split: prod.splits)
  have 1: "decode sch raw =
           Inr (d\<lparr>dropped_frames := length (filter (\<lambda>r. \<not> ?known r) (raw_frames raw))\<rparr>)"
    using ok by (simp add: decode_def Let_def decode_frames_eq d split: prod.splits)
  have 2: "dropped_frames d = 0" by (simp add: d)
  have 3: "samples_of d e = map sample (filter (\<lambda>r. tag r = e) (raw_frames raw))"
    if "known_entity (raw_roster raw) e" for e
  proof -
    have "filter (\<lambda>r. tag r = e) (filter ?known (raw_frames raw))
          = filter (\<lambda>r. tag r = e) (raw_frames raw)"
      using that by (auto intro: filter_cong)
    then show ?thesis by (simp add: samples_of_def d)
  qed
  from 1 2 3 Inr show ?thesis by simp
qed

theorem decode_skips_unknown_tags_witness:
  "decode demo_schema demo_raw = Inr (demo_decoded\<lparr>dropped_frames := 1\<rparr>) \<and>
   length (raw_frames demo_raw) = 20 \<and>
   length (samples_of demo_decoded (Player 2)) = 7"
proof -
  have h: "decode demo_schema
             (demo_raw\<lparr>raw_frames :=
                filter (\<lambda>r. known_entity (raw_roster demo_raw) (tag r)) (raw_frames demo_raw)\<rparr>)
           = Inr demo_decoded"
    by code_simp
  have n: "length (filter (\<lambda>r. \<not> known_entity (raw_roster demo_raw) (tag r))
                     (raw_frames demo_raw)) = 1"
    by code_simp
  have l: "length (raw_frames demo_raw) = 20"
    by code_simp
  have k: "known_entity (raw_roster demo_raw) (Player 2)"
    by code_simp
  have m: "length (map sample (filter (\<lambda>r. tag r = Player 2) (raw_frames demo_raw))) = 7"
    by code_simp
  from decode_skips_unknown_tags [of demo_schema demo_raw]
  have t: "decode demo_schema demo_raw = Inr (demo_decoded\<lparr>dropped_frames := 1\<rparr>) \<and>
           (\<forall>e. known_entity (raw_roster demo_raw) e \<longrightarrow>
              samples_of demo_decoded e
                = map sample (filter (\<lambda>r. tag r = e) (raw_frames demo_raw)))"
    by (simp add: h n)
  from t k have "samples_of demo_decoded (Player 2)
                 = map sample (filter (\<lambda>r. tag r = Player 2) (raw_frames demo_raw))"
    by blast
  with m have "length (samples_of demo_decoded (Player 2)) = 7" by simp
  with t l show ?thesis by blast
qed

subsection \<open>Increasing time stamps\<close>

text \<open>
  Claim C4. For every entity, the normalised time series produced by the normaliser has
  strictly increasing time stamps: no two samples of the series of one entity share a time
  stamp. The tick rate is a positive constant of the configuration.
\<close>

theorem normalized_timestamps_increasing:
  assumes "0 < tick_rate_hz cfg"
  shows "sorted_wrt (<) (series_times (normalize cfg d e)) \<and>
         distinct (series_times (normalize cfg d e))"
  using normalize_entity_sorted [OF assms, of "samples_of d e"]
  by (simp add: normalize_def strict_sorted_iff)

theorem normalized_timestamps_increasing_witness:
  "0 < tick_rate_hz demo_norm_config \<and>
   sorted_wrt (<) (series_times (normalize demo_norm_config demo_decoded Ball)) \<and>
   distinct (series_times (normalize demo_norm_config demo_decoded Ball)) \<and>
   length (series_times (normalize demo_norm_config demo_decoded Ball)) = 61"
proof -
  have h: "0 < tick_rate_hz demo_norm_config" by (simp add: demo_norm_config_def)
  have n: "length (series_times (normalize demo_norm_config demo_decoded Ball)) = 61"
    by code_simp
  from normalized_timestamps_increasing [OF h, of demo_decoded Ball] h n show ?thesis by blast
qed

subsection \<open>Entities with fewer than two samples\<close>

text \<open>
  Claim C5. For every entity with fewer than two raw samples, normalisation produces the empty
  series for that entity and not an error, and the analysis engine treats the entity as not
  applicable for the category contributions: its contribution to every category is the
  sentinel, the category scores and the overall score are what they are without the entity,
  and the entity is listed among those with insufficient data. Nothing undefined reaches
  the overall score: scored alone, the entity gives the sentinel as category score and as
  overall score, not zero; whenever no scored entity has data the overall score is the
  sentinel; with a usable policy and data for some entity it is a number between 0 and 100;
  and a category score or an overall score that is a number is a quotient whose divisor
  (the number of applicable contributions, the total weight of the applicable categories)
  is not zero.
\<close>

theorem degenerate_entity_not_applicable:
  assumes "length (samples_of d e) < 2"
  shows "normalize cfg d e = [] \<and>
         pooled cfg d e = [] \<and>
         sub_score c e (pooled cfg d) events = Not_applicable \<and>
         res_score (analyze_category entities (pooled cfg d) events c) =
           res_score (analyze_category (removeAll e entities) (pooled cfg d) events c) \<and>
         overall (analyze_series policy entities (pooled cfg d) events) =
           overall (analyze_series policy (removeAll e entities) (pooled cfg d) events) \<and>
         filter (\<lambda>x. x = e) (res_insufficient (analyze_category entities (pooled cfg d) events c))
           = filter (\<lambda>x. x = e) entities \<and>
         res_score (analyze_category [e] (pooled cfg d) events c) = Not_applicable \<and>
         overall (analyze_series policy [e] (pooled cfg d) events) = Not_applicable \<and>
         ((\<forall>x \<in> set entities. pooled cfg d x = []) \<longrightarrow>
            overall (analyze_series policy entities (pooled cfg d) events) = Not_applicable) \<and>
         (valid_policy policy \<and> (\<exists>x \<in> set entities. pooled cfg d x \<noteq> []) \<longrightarrow>
            (\<exists>y. overall (analyze_series policy entities (pooled cfg d) events) = Score y
                 \<and> 0 \<le> y \<and> y \<le> 100)) \<and>
         (\<forall>y. res_score (analyze_category entities (pooled cfg d) events c) = Score y \<longrightarrow>
            applicable (map (\<lambda>x. sub_score c x (pooled cfg d) events) entities) \<noteq> [] \<and>
            y = sum_list (applicable (map (\<lambda>x. sub_score c x (pooled cfg d) events) entities))
                / of_nat (length
                    (applicable (map (\<lambda>x. sub_score c x (pooled cfg d) events) entities)))) \<and>
         (\<forall>y. overall (analyze_series policy entities (pooled cfg d) events) = Score y \<longrightarrow>
            sum_list (map fst (weighted (zip (map cat_weight policy)
               (map (\<lambda>c. res_score (analyze_category entities (pooled cfg d) events c))
                  policy)))) \<noteq> 0 \<and>
            y = sum_list (map (\<lambda>(w, x). w * x) (weighted (zip (map cat_weight policy)
                   (map (\<lambda>c. res_score (analyze_category entities (pooled cfg d) events c))
                      policy))))
                / sum_list (map fst (weighted (zip (map cat_weight policy)
                   (map (\<lambda>c. res_score (analyze_category entities (pooled cfg d) events c))
                      policy)))))"
proof -
  have 1: "normalize cfg d e = []"
    using assms by (simp add: normalize_def normalize_entity_few)
  then have 2: "pooled cfg d e = []" by (simp add: pooled_def)
  then have 3: "sub_score c e (pooled cfg d) events = Not_applicable" for c
    by (simp add: sub_score_def)
  have 4: "res_score (analyze_category entities (pooled cfg d) events c) =
           res_score (analyze_category (removeAll e entities) (pooled cfg d) events c)" for c
    using mean_score_removeAll [of "\<lambda>x. sub_score c x (pooled cfg d) events" e entities] 3 [of c]
    by (simp add: analyze_category_def)
  have 5: "overall (analyze_series policy entities (pooled cfg d) events) =
           overall (analyze_series policy (removeAll e entities) (pooled cfg d) events)"
    using 4 by (simp add: analyze_series_def Let_def comp_def)
  have 6: "filter (\<lambda>x. x = e) (res_insufficient (analyze_category entities (pooled cfg d) events c))
           = filter (\<lambda>x. x = e) entities"
    using 2 by (auto simp: analyze_category_def intro: filter_cong)
  have alone: "\<forall>x \<in> set [e]. pooled cfg d x = []" using 2 by simp
  note 7 = overall_no_data(2) [OF alone, of events c]
  note 8 = overall_no_data(1) [OF alone, of policy events]
  have 9: "(\<forall>x \<in> set entities. pooled cfg d x = []) \<longrightarrow>
            overall (analyze_series policy entities (pooled cfg d) events) = Not_applicable"
    using overall_no_data(1) [of entities "pooled cfg d" policy events] by blast
  have 10: "valid_policy policy \<and> (\<exists>x \<in> set entities. pooled cfg d x \<noteq> []) \<longrightarrow>
            (\<exists>y. overall (analyze_series policy entities (pooled cfg d) events) = Score y
                 \<and> 0 \<le> y \<and> y \<le> 100)"
    using overall_some_data [of policy entities "pooled cfg d" events] by blast
  have 11: "\<forall>y. res_score (analyze_category entities (pooled cfg d) events c) = Score y \<longrightarrow>
            applicable (map (\<lambda>x. sub_score c x (pooled cfg d) events) entities) \<noteq> [] \<and>
            y = sum_list (applicable (map (\<lambda>x. sub_score c x (pooled cfg d) events) entities))
                / of_nat (length
                    (applicable (map (\<lambda>x. sub_score c x (pooled cfg d) events) entities)))"
    using mean_score_quotient [of "map (\<lambda>x. sub_score c x (pooled cfg d) events) entities"]
    by (simp add: analyze_category_def)
  have 12: "\<forall>y. overall (analyze_series policy entities (pooled cfg d) events) = Score y \<longrightarrow>
            sum_list (map fst (weighted (zip (map cat_weight policy)
               (map (\<lambda>c. res_score (analyze_category entities (pooled cfg d) events c))
                  policy)))) \<noteq> 0 \<and>
            y = sum_list (map (\<lambda>(w, x). w * x) (weighted (zip (map cat_weight policy)
                   (map (\<lambda>c. res_score (analyze_category entities (pooled cfg d) events c))
                      policy))))
                / sum_list (map fst (weighted (zip (map cat_weight policy)
                   (map (\<lambda>c. res_score (analyze_category entities (pooled cfg d) events c))
                      policy))))"
    using overall_score_quotient [of "zip (map cat_weight policy)
               (map (\<lambda>c. res_score (analyze_category entities (pooled cfg d) events c)) policy)"]
    by (simp add: analyze_series_def Let_def comp_def)
  show ?thesis
    by (intro conjI) (rule 1 2 3 4 5 6 7 8 9 10 11 12)+
qed

theorem degenerate_entity_not_applicable_witness:
  "length (samples_of sparse_decoded (Player 2)) = 1 \<and>
   normalize demo_norm_config sparse_decoded (Player 2) = [] \<and>
   sub_score (hd demo_policy) (Player 2) (pooled demo_norm_config sparse_decoded)
     (dec_events sparse_decoded) = Not_applicable \<and>
   overall (analyze_series demo_policy [Player 1, Player 2]
              (pooled demo_norm_config sparse_decoded) (dec_events sparse_decoded)) =
   overall (analyze_series demo_policy [Player 1]
              (pooled demo_norm_config sparse_decoded) (dec_events sparse_decoded)) \<and>
   overall (analyze_series demo_policy [Player 2]
              (pooled demo_norm_config sparse_decoded) (dec_events sparse_decoded))
     = Not_applicable \<and>
   valid_policy demo_policy \<and>
   pooled demo_norm_config sparse_decoded (Player 1) \<noteq> [] \<and>
   overall (analyze_series demo_policy [Player 1, Player 2]
              (pooled demo_norm_config sparse_decoded) (dec_events sparse_decoded))
     \<noteq> Not_applicable"
proof -
  have n: "length (samples_of sparse_decoded (Player 2)) = 1"
    by code_simp
  then have h: "length (samples_of sparse_decoded (Player 2)) < 2"
    by simp
  have r: "removeAll (Player 2) [Player 1, Player 2] = [Player 1]"
    by simp
  have pol: "valid_policy demo_policy"
    by code_simp
  have p1: "pooled demo_norm_config sparse_decoded (Player 1) \<noteq> []"
    by code_simp
  then have ex: "\<exists>x \<in> set [Player 1, Player 2]. pooled demo_norm_config sparse_decoded x \<noteq> []"
    by simp
  note t = degenerate_entity_not_applicable
    [OF h, of demo_norm_config "hd demo_policy" "dec_events sparse_decoded"
       "[Player 1, Player 2]" demo_policy, unfolded r]
  from t pol ex
  have "\<exists>y. overall (analyze_series demo_policy [Player 1, Player 2]
              (pooled demo_norm_config sparse_decoded) (dec_events sparse_decoded)) = Score y"
    by blast
  then have v: "overall (analyze_series demo_policy [Player 1, Player 2]
              (pooled demo_norm_config sparse_decoded) (dec_events sparse_decoded))
     \<noteq> Not_applicable"
    by auto
  from t n pol p1 v show ?thesis by blast
qed

subsection \<open>The synthetic two-player replay\<close>

text \<open>
  Claim C7. For a synthetic replay with two players, 60 seconds long, with one goal event at
  30 seconds, the overall score lies between 0 and 100, exactly one event of type goal is
  attributed to the scoring player (and none to the other), and the per-category scores of
  both players are present and are not the sentinel. The theorem holds for every capture
  with two players that have at least two frame records each and one goal event, and for
  every usable policy table.
\<close>

theorem synthetic_replay_scores:
  assumes pol: "valid_policy policy"
    and dec: "decode sch raw = Inr d"
    and roster: "map player_id (raw_roster raw) = [p1, p2]"
    and f1: "2 \<le> length (filter (\<lambda>r. tag r = Player p1) (raw_frames raw))"
    and f2: "2 \<le> length (filter (\<lambda>r. tag r = Player p2) (raw_frames raw))"
    and ev: "raw_events raw = [goal]" "event_type goal = ''goal''" "actor goal = p1"
      "event_time goal = 30"
  shows "(\<exists>x. overall (analyze_replay cfg policy d) = Score x \<and> 0 \<le> x \<and> x \<le> 100) \<and>
         attributed (dec_events d) ''goal'' p1 = [goal] \<and>
         attributed (dec_events d) ''goal'' p2 = [] \<and>
         list_all (\<lambda>r. \<exists>x y. res_sub_scores r = [(Player p1, Score x), (Player p2, Score y)])
           (category_results (analyze_replay cfg policy d))"
proof -
  note r = decode_result [OF dec]
  from r(4) roster have ne: "p1 \<noteq> p2" by simp
  have es: "map (\<lambda>p. Player (player_id p)) (dec_roster d) = [Player p1, Player p2]"
  proof -
    have "map (\<lambda>p. Player (player_id p)) (dec_roster d) = map Player (map player_id (raw_roster raw))"
      by (simp add: r(1) comp_def)
    then show ?thesis by (simp add: roster)
  qed
  have known: "known_entity (raw_roster raw) (Player p)" if "p = p1 \<or> p = p2" for p
    using that roster by auto
  have smp: "samples_of d (Player p) = map sample (filter (\<lambda>r. tag r = Player p) (raw_frames raw))"
    if "p = p1 \<or> p = p2" for p
  proof -
    have "filter (\<lambda>r. tag r = Player p)
            (filter (\<lambda>r. known_entity (raw_roster raw) (tag r)) (raw_frames raw))
          = filter (\<lambda>r. tag r = Player p) (raw_frames raw)"
      using known [OF that] by (auto intro: filter_cong)
    then show ?thesis by (simp add: samples_of_def r(2))
  qed
  have full: "pooled cfg d (Player p) \<noteq> []" if "p = p1 \<or> p = p2" for p
  proof -
    from that f1 f2 have "2 \<le> length (samples_of d (Player p))"
      by (auto simp: smp)
    from normalize_entity_nonempty [OF this] show ?thesis
      by (simp add: pooled_def normalize_def)
  qed
  have sub: "\<exists>x. sub_score c (Player p) (pooled cfg d) (dec_events d) = Score x \<and> 0 \<le> x \<and> x \<le> 100"
    if "c \<in> set policy" "p = p1 \<or> p = p2" for c p
  proof -
    from pol that(1) have "cat_lo c < cat_hi c" by (auto simp: valid_policy_def list_all_iff)
    from scale_range [OF this] full [OF that(2)] show ?thesis by (simp add: sub_score_def)
  qed
  define results where
    "results = map (analyze_category [Player p1, Player p2] (pooled cfg d) (dec_events d)) policy"
  have an: "analyze_replay cfg policy d =
      \<lparr>category_results = results,
       overall = overall_score (zip (map cat_weight policy) (map res_score results))\<rparr>"
    by (simp add: analyze_replay_def analyze_series_def Let_def es results_def)
  have cat: "\<exists>y. res_score (analyze_category [Player p1, Player p2] (pooled cfg d) (dec_events d) c)
                 = Score y \<and> 0 \<le> y \<and> y \<le> 100"
    if "c \<in> set policy" for c
  proof -
    have "\<exists>y. mean_score (map (\<lambda>e. sub_score c e (pooled cfg d) (dec_events d)) [Player p1, Player p2])
             = Score y \<and> 0 \<le> y \<and> y \<le> 100"
      by (rule mean_score_range) (use sub [OF that] in auto)
    then show ?thesis by (simp add: analyze_category_def)
  qed
  have pairs: "\<forall>(w, s) \<in> set (zip (map cat_weight policy) (map res_score results)).
                 0 < w \<and> (\<exists>x. s = Score x \<and> 0 \<le> x \<and> x \<le> 100)"
  proof -
    have "zip (map cat_weight policy) (map res_score results)
          = map (\<lambda>c. (cat_weight c,
                   res_score (analyze_category [Player p1, Player p2] (pooled cfg d) (dec_events d) c)))
              policy"
      by (simp add: results_def zip_map_map zip_same_conv_map comp_def)
    moreover have "0 < cat_weight c" if "c \<in> set policy" for c
      using pol that by (auto simp: valid_policy_def list_all_iff)
    ultimately show ?thesis using cat by auto
  qed
  have "zip (map cat_weight policy) (map res_score results) \<noteq> []"
    using pol by (cases policy) (auto simp: valid_policy_def results_def)
  from overall_score_range [OF this pairs]
  have 1: "\<exists>x. overall (analyze_replay cfg policy d) = Score x \<and> 0 \<le> x \<and> x \<le> 100"
    by (simp add: an)
  have evs: "dec_events d = [goal]"
    using r(3) ev roster by simp
  have 2: "attributed (dec_events d) ''goal'' p1 = [goal]"
    using ev by (simp add: attributed_def evs)
  have 3: "attributed (dec_events d) ''goal'' p2 = []"
    using ev ne by (simp add: attributed_def evs)
  have 4: "list_all (\<lambda>r. \<exists>x y. res_sub_scores r = [(Player p1, Score x), (Player p2, Score y)])
           (category_results (analyze_replay cfg policy d))"
  proof -
    have "\<exists>x y. res_sub_scores (analyze_category [Player p1, Player p2] (pooled cfg d) (dec_events d) c)
                = [(Player p1, Score x), (Player p2, Score y)]"
      if "c \<in> set policy" for c
      using sub [OF that, of p1] sub [OF that, of p2] by (auto simp: analyze_category_def)
    then show ?thesis by (simp add: an results_def list_all_iff)
  qed
  from 1 2 3 4 show ?thesis by blast
qed

theorem synthetic_replay_scores_witness:
  "valid_policy demo_policy \<and>
   decode demo_schema demo_raw = Inr (demo_decoded\<lparr>dropped_frames := 1\<rparr>) \<and>
   duration (dec_metadata (demo_decoded\<lparr>dropped_frames := 1\<rparr>)) = 60 \<and>
   overall (analyze_replay demo_norm_config demo_policy (demo_decoded\<lparr>dropped_frames := 1\<rparr>))
     \<noteq> Not_applicable \<and>
   attributed (dec_events (demo_decoded\<lparr>dropped_frames := 1\<rparr>)) ''goal'' 1
     = [\<lparr>event_time = 30, event_type = ''goal'', actor = 1, target = None\<rparr>] \<and>
   attributed (dec_events (demo_decoded\<lparr>dropped_frames := 1\<rparr>)) ''goal'' 2 = [] \<and>
   list_all (\<lambda>r. \<exists>x y. res_sub_scores r = [(Player 1, Score x), (Player 2, Score y)])
     (category_results
        (analyze_replay demo_norm_config demo_policy (demo_decoded\<lparr>dropped_frames := 1\<rparr>)))"
proof -
  let ?goal = "\<lparr>event_time = 30, event_type = ''goal'', actor = 1, target = None\<rparr>"
  have pol: "valid_policy demo_policy"
    by code_simp
  have dec: "decode demo_schema demo_raw = Inr (demo_decoded\<lparr>dropped_frames := 1\<rparr>)"
    by code_simp
  have roster: "map player_id (raw_roster demo_raw) = [1, 2]"
    by code_simp
  have f1: "2 \<le> length (filter (\<lambda>r. tag r = Player 1) (raw_frames demo_raw))"
    by code_simp
  have f2: "2 \<le> length (filter (\<lambda>r. tag r = Player 2) (raw_frames demo_raw))"
    by code_simp
  have ev: "raw_events demo_raw = [?goal]" "event_type ?goal = ''goal''" "actor ?goal = 1"
    "event_time ?goal = 30"
    by (simp_all add: demo_raw_def)
  have dur: "duration (dec_metadata (demo_decoded\<lparr>dropped_frames := 1\<rparr>)) = 60"
    by (simp add: demo_decoded_def demo_schema_def)
  note t = synthetic_replay_scores [OF pol dec roster f1 f2 ev, of demo_norm_config]
  from t have "overall (analyze_replay demo_norm_config demo_policy
                          (demo_decoded\<lparr>dropped_frames := 1\<rparr>)) \<noteq> Not_applicable"
    by auto
  with t pol dec dur show ?thesis by blast
qed

end
